theory Spec2Isabelle
  imports Main "HOL-Library.Sublist" "HOL-Library.AList"
begin

section \<open>JavaScript values as the dashboard scripts see them\<close>

text \<open>
  Both scripts read the backend's answers through \<^verbatim>\<open>response.json()\<close>, so every value
  they touch is a parsed JSON value. A property that an object does not have reads as
  \<^verbatim>\<open>undefined\<close>, modelled as \<open>None\<close>.

  A number is a double. The scripts do two things with one: they test it (\<^verbatim>\<open>||\<close>,
  \<^verbatim>\<open>=== 0\<close>), and only zero is special there, since JSON has no \<^verbatim>\<open>NaN\<close>; and they
  turn it into text (\<^verbatim>\<open>String\<close>). The model keeps of a number exactly these two
  observations: whether it is zero, and the text \<^verbatim>\<open>String\<close> gives for it. It holds for
  fractions and for numbers printed with an exponent as well as for integers.
\<close>

datatype number = Number (is_zero: bool) (numeral: string)

datatype json = JNull | JBool bool | JNum number | JStr string
  | JArr "json list" | JObj "(string \<times> json) list"

text \<open>An exception object: its kind and its \<^verbatim>\<open>message\<close> property.\<close>

datatype exn = TypeError string | SyntaxError string

fun message :: "exn \<Rightarrow> string" where
  "message (TypeError m) = m"
| "message (SyntaxError m) = m"

text \<open>Truthiness, as \<^verbatim>\<open>||\<close>, \<^verbatim>\<open>&&\<close> and \<^verbatim>\<open>if\<close> test it.\<close>

fun truthy :: "json \<Rightarrow> bool" where
  "truthy JNull = False"
| "truthy (JBool b) = b"
| "truthy (JNum n) = (\<not> is_zero n)"
| "truthy (JStr s) = (s \<noteq> [])"
| "truthy (JArr xs) = True"
| "truthy (JObj kvs) = True"

text \<open>\<^verbatim>\<open>String(v)\<close>: the conversion behind a \<^verbatim>\<open>textContent\<close> assignment and a template literal.\<close>

fun join :: "string \<Rightarrow> string list \<Rightarrow> string" where
  "join sep [] = []"
| "join sep [x] = x"
| "join sep (x # y # ys) = x @ sep @ join sep (y # ys)"

fun toString :: "json \<Rightarrow> string" where
  "toString JNull = ''null''"
| "toString (JBool b) = (if b then ''true'' else ''false'')"
| "toString (JNum n) = numeral n"
| "toString (JStr s) = s"
| "toString (JArr xs) = join '','' (map (\<lambda>x. case x of JNull \<Rightarrow> [] | _ \<Rightarrow> toString x) xs)"
| "toString (JObj kvs) = ''[object Object]''"

text \<open>A template literal's \<^verbatim>\<open>${e}\<close>, where \<open>e\<close> may be \<^verbatim>\<open>undefined\<close>.\<close>

definition interpolate :: "json option \<Rightarrow> string" where
  "interpolate v = (case v of None \<Rightarrow> ''undefined'' | Some x \<Rightarrow> toString x)"

text \<open>
  Property access \<^verbatim>\<open>v.k\<close> for the record fields the scripts read (none of them is a
  built-in property of a string, number, boolean or array): \<^verbatim>\<open>null.k\<close> throws, an
  object yields its own property, everything else yields \<^verbatim>\<open>undefined\<close>.
\<close>

definition js_get :: "json \<Rightarrow> string \<Rightarrow> exn + json option" where
  "js_get v k = (case v of
      JNull \<Rightarrow> Inl (TypeError (''Cannot read properties of null (reading '' @ [CHR 0x27] @ k @ [CHR 0x27] @ '')''))
    | JObj kvs \<Rightarrow> Inr (map_of kvs k)
    | _ \<Rightarrow> Inr None)"

text \<open>
  The number of a length. A length is a natural number below \<open>2^53\<close>, and \<^verbatim>\<open>String\<close>
  prints such a number in plain decimal.
\<close>

fun digits :: "nat \<Rightarrow> string" where
  "digits n = (if n < 10 then [''0123456789'' ! n]
               else digits (n div 10) @ [''0123456789'' ! (n mod 10)])"

declare digits.simps [simp del]

definition length_number :: "nat \<Rightarrow> number" where
  "length_number k = Number (k = 0) (digits k)"

text \<open>\<^verbatim>\<open>v.length\<close>: arrays and strings have it built in.\<close>

definition js_length :: "json \<Rightarrow> exn + json option" where
  "js_length v = (case v of
      JArr xs \<Rightarrow> Inr (Some (JNum (length_number (length xs))))
    | JStr s \<Rightarrow> Inr (Some (JNum (length_number (length s))))
    | _ \<Rightarrow> js_get v ''length'')"

text \<open>\<^verbatim>\<open>e === 0\<close>: true of a number that is zero, and of nothing else.\<close>

definition strictly_equals_0 :: "json option \<Rightarrow> bool" where
  "strictly_equals_0 v = (case v of Some (JNum n) \<Rightarrow> is_zero n | _ \<Rightarrow> False)"

text \<open>\<^verbatim>\<open>e || ''\<close> assigned to \<^verbatim>\<open>textContent\<close>: a falsy or missing value gives the empty text.\<close>

definition or_empty :: "json option \<Rightarrow> string" where
  "or_empty v = (case v of None \<Rightarrow> [] | Some x \<Rightarrow> if truthy x then toString x else [])"

section \<open>The page: document, browser state and observable effects\<close>

datatype cell = Cell (colspan: nat) (textContent: string)

type_synonym row = "cell list"

text \<open>
  What a handler does to the outside world, in the order it does it. \<open>Fetch\<close> carries the
  method, the URL and the fields of the JSON body (empty when there is none).
\<close>

datatype effect =
    Fetch string string "(string \<times> string) list"
  | ConsoleError string exn
  | Alert string
  | Confirm string
  | CreateObjectURL
  | RevokeObjectURL
  | Download string
  | Listen string string
  | WindowOpen string
  | Navigate string
  | SetAttribute string string

record page =
  tbody :: "row list"
  status_html :: string
  status_display :: string
  modal_display :: string
  form :: "(string \<times> string) list"
  folderPathInput :: string
  data_theme :: "string option"
  toggle_checked :: bool
  localStorage :: "string \<rightharpoonup> string"
  clock :: nat
  timers :: "nat list"
  log :: "effect list"

definition emit :: "effect \<Rightarrow> page \<Rightarrow> page" where
  "emit e s = s\<lparr>log := log s @ [e]\<rparr>"

text \<open>
  Time is counted in milliseconds. \<open>timers\<close> holds the due times of the pending
  \<^verbatim>\<open>setTimeout\<close> callbacks; every one of them is the banner's auto-hide, so firing
  the due ones sets \<^verbatim>\<open>statusSection.style.display = 'none'\<close>.
\<close>

definition advance :: "nat \<Rightarrow> page \<Rightarrow> page" where
  "advance t s = s\<lparr>clock := t,
     timers := filter (\<lambda>u. t < u) (timers s),
     status_display := (if filter (\<lambda>u. u \<le> t) (timers s) = [] then status_display s else ''none'')\<rparr>"

text \<open>An \<^verbatim>\<open>await\<close> that settles after \<open>d\<close> milliseconds.\<close>

definition await :: "nat \<Rightarrow> page \<Rightarrow> page" where
  "await d s = advance (clock s + d) s"

text \<open>
  What a \<^verbatim>\<open>fetch\<close> settles with: a rejection (transport failure), or a response with its
  \<^verbatim>\<open>ok\<close> flag, its \<^verbatim>\<open>Content-Disposition\<close> header, and what \<^verbatim>\<open>response.json()\<close> and
  \<^verbatim>\<open>response.blob()\<close> settle with.
\<close>

record response =
  ok :: bool
  content_disposition :: "string option"
  json_body :: "exn + json"
  blob_body :: "exn + unit"

record fetched =
  elapsed :: nat
  result :: "exn + response"

subsection \<open>StatusBanner\<close>

definition showStatus :: "string \<Rightarrow> string \<Rightarrow> page \<Rightarrow> page" where
  \<open>showStatus msg type s = s\<lparr>
     status_html := ''<p class="'' @ type @ ''">'' @ msg @ ''</p>'',
     status_display := ''block'',
     timers := timers s @ [clock s + 5000]\<rparr>\<close>

subsection \<open>What the banner shows\<close>






subsection \<open>DataTableController: artifacts\<close>

definition artifact_fields :: "string list" where
  "artifact_fields = [''id'', ''artifact_type'', ''name'', ''path'', ''timestamp'',
     ''last_access'', ''extra'', ''details'']"

definition correlation_fields :: "string list" where
  "correlation_fields = [''timestamp'', ''artifact_type'', ''detail'', ''anomaly'']"

text \<open>
  The statements \<^verbatim>\<open>row.insertCell().textContent = record.f || ''\<close> of one pass of the
  \<^verbatim>\<open>forEach\<close> callback. The target of an assignment is evaluated before its right-hand
  side: \<^verbatim>\<open>insertCell()\<close> appends an empty cell, then \<^verbatim>\<open>record.f\<close> is read, and on a
  \<^verbatim>\<open>null\<close> record that read throws with the empty cell already in the row. The result
  is the row so far and the exception, if any.
\<close>

fun insertCells :: "string list \<Rightarrow> json \<Rightarrow> row \<Rightarrow> row \<times> exn option" where
  "insertCells [] r cells = (cells, None)"
| "insertCells (f # fs) r cells = (case js_get r f of
      Inl e \<Rightarrow> (cells @ [Cell 1 []], Some e)
    | Inr v \<Rightarrow> insertCells fs r (cells @ [Cell 1 (or_empty v)]))"

text \<open>
  The \<^verbatim>\<open>forEach\<close> loop over the rows already in the table: \<^verbatim>\<open>insertRow()\<close> appends a
  row, which the pass then fills. The result is the table body and the exception that
  stopped the loop, if any; the row of a throwing pass stays in the table with the cells
  inserted so far.
\<close>

fun renderRows :: "string list \<Rightarrow> json list \<Rightarrow> row list \<Rightarrow> row list \<times> exn option" where
  "renderRows fs [] rows = (rows, None)"
| "renderRows fs (r # rs) rows = (case insertCells fs r [] of
      (cells, Some e) \<Rightarrow> (rows @ [cells], Some e)
    | (cells, None) \<Rightarrow> renderRows fs rs (rows @ [cells]))"

text \<open>\<^verbatim>\<open>xs.forEach\<close> exists on arrays only.\<close>

definition js_forEach :: "string \<Rightarrow> json \<Rightarrow> exn + json list" where
  "js_forEach name v = (case v of
      JArr xs \<Rightarrow> Inr xs
    | _ \<Rightarrow> Inl (TypeError (name @ ''.forEach is not a function'')))"

definition fetchArtifacts_catch :: "exn \<Rightarrow> page \<Rightarrow> page" where
  "fetchArtifacts_catch e s =
     showStatus ''Error fetching artifacts.'' ''error''
       (emit (ConsoleError ''Error fetching artifacts:'' e) s)"

definition fetchArtifacts_start :: "page \<Rightarrow> page" where
  "fetchArtifacts_start s = emit (Fetch ''GET'' ''/api/artifacts'' []) s"

definition fetchArtifacts_settle :: "fetched \<Rightarrow> page \<Rightarrow> page" where
  "fetchArtifacts_settle f s0 = (let s = await (elapsed f) s0 in
     case result f of
       Inl e \<Rightarrow> fetchArtifacts_catch e s
     | Inr resp \<Rightarrow> (case json_body resp of
         Inl e \<Rightarrow> fetchArtifacts_catch e s
       | Inr artifacts \<Rightarrow> (let s1 = s\<lparr>tbody := []\<rparr> in
           case js_length artifacts of
             Inl e \<Rightarrow> fetchArtifacts_catch e s1
           | Inr len \<Rightarrow>
               if strictly_equals_0 len
               then s1\<lparr>tbody := [[Cell 8 ''No artifacts found.'']]\<rparr>
               else (case js_forEach ''artifacts'' artifacts of
                   Inl e \<Rightarrow> fetchArtifacts_catch e s1
                 | Inr xs \<Rightarrow> (case renderRows artifact_fields xs (tbody s1) of
                     (rows, None) \<Rightarrow> s1\<lparr>tbody := rows\<rparr>
                   | (rows, Some e) \<Rightarrow> fetchArtifacts_catch e (s1\<lparr>tbody := rows\<rparr>))))))"

definition fetchArtifacts :: "fetched \<Rightarrow> page \<Rightarrow> page" where
  "fetchArtifacts f s = fetchArtifacts_settle f (fetchArtifacts_start s)"

subsection \<open>DataTableController: correlations\<close>

definition fetchCorrelations_catch :: "exn \<Rightarrow> page \<Rightarrow> page" where
  "fetchCorrelations_catch e s =
     (emit (ConsoleError ''Error fetching correlations:'' e) s)
       \<lparr>tbody := [[Cell 4 ''Error fetching correlations.'']]\<rparr>"

definition fetchCorrelations_start :: "page \<Rightarrow> page" where
  "fetchCorrelations_start s = emit (Fetch ''GET'' ''/api/correlations'' []) s"

definition fetchCorrelations_settle :: "fetched \<Rightarrow> page \<Rightarrow> page" where
  "fetchCorrelations_settle f s0 = (let s = await (elapsed f) s0 in
     case result f of
       Inl e \<Rightarrow> fetchCorrelations_catch e s
     | Inr resp \<Rightarrow> (case json_body resp of
         Inl e \<Rightarrow> fetchCorrelations_catch e s
       | Inr correlations \<Rightarrow> (let s1 = s\<lparr>tbody := []\<rparr> in
           case js_length correlations of
             Inl e \<Rightarrow> fetchCorrelations_catch e s1
           | Inr len \<Rightarrow>
               if strictly_equals_0 len
               then s1\<lparr>tbody := [[Cell 4 ''No correlations found.'']]\<rparr>
               else (case js_forEach ''correlations'' correlations of
                   Inl e \<Rightarrow> fetchCorrelations_catch e s1
                 | Inr xs \<Rightarrow> (case renderRows correlation_fields xs (tbody s1) of
                     (rows, None) \<Rightarrow> s1\<lparr>tbody := rows\<rparr>
                   | (rows, Some e) \<Rightarrow> fetchCorrelations_catch e (s1\<lparr>tbody := rows\<rparr>))))))"

definition fetchCorrelations :: "fetched \<Rightarrow> page \<Rightarrow> page" where
  "fetchCorrelations f s = fetchCorrelations_settle f (fetchCorrelations_start s)"

section \<open>ReportExportModal\<close>

subsection \<open>The filename of the download\<close>

text \<open>
  A header value is a byte string, so \<open>char\<close> is exactly its alphabet. The handler runs
  \<^verbatim>\<open>/filename[^;=\n]*=((['"]).*?\2|[^;\n]*)/\<close> over it; the functions below are that
  expression, piece by piece.
\<close>

definition quote_char :: "char \<Rightarrow> bool" where
  "quote_char c = (c = CHR 0x22 \<or> c = CHR 0x27)"

text \<open>The dot matches everything but a line terminator.\<close>

definition dot_char :: "char \<Rightarrow> bool" where
  "dot_char c = (c \<noteq> CHR 0x0A \<and> c \<noteq> CHR 0x0D)"

text \<open>\<^verbatim>\<open>[^;=\n]\<close> and \<^verbatim>\<open>[^;\n]\<close>.\<close>

definition name_char :: "char \<Rightarrow> bool" where
  "name_char c = (c \<noteq> CHR '';'' \<and> c \<noteq> CHR ''='' \<and> c \<noteq> CHR 0x0A)"

definition value_char :: "char \<Rightarrow> bool" where
  "value_char c = (c \<noteq> CHR '';'' \<and> c \<noteq> CHR 0x0A)"

text \<open>
  \<^verbatim>\<open>.*?\2\<close> after the opening quote \<open>q\<close>: at each position the closing quote is tried
  first, and only then one more character is consumed by the dot. The result is the text
  before the closing quote.
\<close>

fun lazy_until :: "char \<Rightarrow> string \<Rightarrow> string option" where
  "lazy_until q [] = None"
| "lazy_until q (c # cs) =
     (if c = q then Some []
      else if dot_char c then map_option ((#) c) (lazy_until q cs)
      else None)"

text \<open>The first alternative of group 1, \<^verbatim>\<open>(['"]).*?\2\<close>: the match keeps both quotes.\<close>

definition quoted_alt :: "string \<Rightarrow> string option" where
  "quoted_alt v = (case v of
      [] \<Rightarrow> None
    | q # w \<Rightarrow> if quote_char q then map_option (\<lambda>b. q # b @ [q]) (lazy_until q w) else None)"

text \<open>
  Group 1: the quoted alternative, else \<^verbatim>\<open>[^;\n]*\<close>, which is greedy and always matches.
  Nothing follows the group in the expression, so its first match stands.
\<close>

definition group1 :: "string \<Rightarrow> string" where
  "group1 v = (case quoted_alt v of Some g \<Rightarrow> g | None \<Rightarrow> takeWhile value_char v)"

text \<open>
  A match attempt at the start of \<open>s\<close>. After the literal, \<^verbatim>\<open>[^;=\n]*\<close> takes every
  character it can; giving some back never helps, because the character that must follow
  is \<^verbatim>\<open>=\<close>, which the class excludes.
\<close>

definition match_here :: "string \<Rightarrow> string option" where
  "match_here s =
     (if prefix ''filename'' s
      then (case dropWhile name_char (drop 8 s) of
              [] \<Rightarrow> None
            | c # v \<Rightarrow> if c = CHR ''='' then Some (group1 v) else None)
      else None)"

text \<open>\<^verbatim>\<open>filenameRegex.exec(disposition)\<close>: the leftmost match; the result is \<^verbatim>\<open>matches[1]\<close>.\<close>

fun regex_exec :: "string \<Rightarrow> string option" where
  "regex_exec [] = match_here []"
| "regex_exec (c # cs) = (case match_here (c # cs) of
      Some g \<Rightarrow> Some g
    | None \<Rightarrow> regex_exec cs)"

text \<open>\<^verbatim>\<open>s.indexOf(sub) !== -1\<close>.\<close>

fun js_includes :: "string \<Rightarrow> string \<Rightarrow> bool" where
  "js_includes sub [] = prefix sub []"
| "js_includes sub (c # cs) = (prefix sub (c # cs) \<or> js_includes sub cs)"

text \<open>\<^verbatim>\<open>g.replace(/['"]/g, '')\<close>.\<close>

definition strip_quotes :: "string \<Rightarrow> string" where
  "strip_quotes g = filter (\<lambda>c. \<not> quote_char c) g"

text \<open>
  The name the download is saved under: \<open>dflt\<close> is the handler's literal, \<open>disposition\<close>
  what \<^verbatim>\<open>response.headers.get('Content-Disposition')\<close> returned (\<open>None\<close> for
  \<^verbatim>\<open>null\<close>).
\<close>

definition download_filename :: "string \<Rightarrow> string option \<Rightarrow> string" where
  "download_filename dflt disposition = (case disposition of
      None \<Rightarrow> dflt
    | Some d \<Rightarrow>
        if d \<noteq> [] \<and> js_includes ''attachment'' d
        then (case regex_exec d of
                None \<Rightarrow> dflt
              | Some g \<Rightarrow> if g \<noteq> [] then strip_quotes g else dflt)
        else dflt)"

subsection \<open>The form\<close>

text \<open>\<^verbatim>\<open>Object.fromEntries(formData.entries())\<close>: a repeated name keeps its first position and its last value.\<close>

definition fromEntries :: "(string \<times> string) list \<Rightarrow> (string \<times> string) list" where
  "fromEntries es = foldl (\<lambda>obj (k, v). AList.update k v obj) [] es"

text \<open>
  Modelled from the spec: the default values of the form's controls, which live in the
  HTML document (not among the sources). \<^verbatim>\<open>form.reset()\<close> restores every control's
  default, and the spec describes the form after a reset as empty, so every default is
  the empty string.
\<close>

definition form_reset :: "(string \<times> string) list \<Rightarrow> (string \<times> string) list" where
  "form_reset fs = map (\<lambda>(k, v). (k, [])) fs"

definition submit_finally :: "page \<Rightarrow> page" where
  "submit_finally s = s\<lparr>modal_display := ''none'', form := form_reset (form s)\<rparr>"

subsection \<open>The modal's listeners (both pages)\<close>

definition exportPdfBtn_click :: "page \<Rightarrow> page" where
  "exportPdfBtn_click s = s\<lparr>modal_display := ''block''\<rparr>"

definition closeModalBtn_click :: "page \<Rightarrow> page" where
  "closeModalBtn_click s = s\<lparr>modal_display := ''none''\<rparr>"

text \<open>The window's click listener; \<open>on_modal\<close> says whether the click's target is the modal itself.\<close>

definition window_click :: "bool \<Rightarrow> page \<Rightarrow> page" where
  "window_click on_modal s = (if on_modal then s\<lparr>modal_display := ''none''\<rparr> else s)"

subsection \<open>Submitting the form on the artifacts page\<close>

definition pdf_catch :: "exn \<Rightarrow> page \<Rightarrow> page" where
  "pdf_catch e s =
     showStatus (''Error exporting PDF: '' @ message e) ''error''
       (emit (ConsoleError ''Error exporting PDF:'' e) s)"

text \<open>The click on the temporary link: the browser saves the blob under \<open>filename\<close>.\<close>

definition save_as :: "string \<Rightarrow> page \<Rightarrow> page" where
  "save_as filename s = emit RevokeObjectURL (emit (Download filename) (emit CreateObjectURL s))"

definition pdfReportForm_submit :: "fetched \<Rightarrow> page \<Rightarrow> page" where
  "pdfReportForm_submit f s0 =
    (let s1 = showStatus ''Generating PDF report...'' ''info'' s0;
         reportDetails = fromEntries (form s1);
         s2 = emit (Fetch ''POST'' ''/api/export_pdf'' reportDetails) s1;
         s = await (elapsed f) s2
     in submit_finally (case result f of
          Inl e \<Rightarrow> pdf_catch e s
        | Inr resp \<Rightarrow>
            if ok resp
            then (case blob_body resp of
                    Inl e \<Rightarrow> pdf_catch e s
                  | Inr _ \<Rightarrow>
                      showStatus ''PDF report initiated. Check your downloads.'' ''info''
                        (save_as (download_filename ''artifacts_report.pdf'' (content_disposition resp)) s))
            else (case json_body resp of
                    Inl e \<Rightarrow> pdf_catch e s
                  | Inr errorData \<Rightarrow> (case js_get errorData ''message'' of
                        Inl e \<Rightarrow> pdf_catch e s
                      | Inr m \<Rightarrow> showStatus (''Error generating PDF: '' @ interpolate m) ''error'' s))))"

subsection \<open>Submitting the form on the correlations page\<close>

definition correlation_pdf_catch :: "exn \<Rightarrow> page \<Rightarrow> page" where
  "correlation_pdf_catch e s =
     emit (Alert (''Error exporting correlation PDF: '' @ message e))
       (emit (ConsoleError ''Error exporting correlation PDF:'' e) s)"

definition correlation_pdfReportForm_submit :: "fetched \<Rightarrow> page \<Rightarrow> page" where
  "correlation_pdfReportForm_submit f s0 =
    (let s1 = emit (Alert ''Generating Correlation PDF report...'') s0;
         reportDetails = fromEntries (form s1);
         s2 = emit (Fetch ''POST'' ''/api/export_correlation_pdf'' reportDetails) s1;
         s = await (elapsed f) s2
     in submit_finally (case result f of
          Inl e \<Rightarrow> correlation_pdf_catch e s
        | Inr resp \<Rightarrow>
            if ok resp
            then (case blob_body resp of
                    Inl e \<Rightarrow> correlation_pdf_catch e s
                  | Inr _ \<Rightarrow>
                      save_as (download_filename ''correlation_report.pdf'' (content_disposition resp)) s)
            else (case json_body resp of
                    Inl e \<Rightarrow> correlation_pdf_catch e s
                  | Inr errorData \<Rightarrow> (case js_get errorData ''message'' of
                        Inl e \<Rightarrow> correlation_pdf_catch e s
                      | Inr m \<Rightarrow> emit (Alert (''Error generating PDF: '' @ interpolate m)) s))))"

section \<open>ActionDispatcher\<close>

text \<open>
  The part the three commands share after \<^verbatim>\<open>await response.json()\<close>: the branch on
  \<^verbatim>\<open>data.status === 'success'\<close>. \<open>on_success\<close> is what the success branch does after
  showing the message; \<open>label\<close> names the command in the catch block's texts.
\<close>

definition command_catch :: "string \<Rightarrow> exn \<Rightarrow> page \<Rightarrow> page" where
  "command_catch label e s =
     showStatus (''Error '' @ label @ '': '' @ message e) ''error''
       (emit (ConsoleError (''Error '' @ label @ '':'') e) s)"

definition on_status :: "string \<Rightarrow> (page \<Rightarrow> page) \<Rightarrow> fetched \<Rightarrow> page \<Rightarrow> page" where
  "on_status label on_success f s0 = (let s = await (elapsed f) s0 in
     case result f of
       Inl e \<Rightarrow> command_catch label e s
     | Inr resp \<Rightarrow> (case json_body resp of
         Inl e \<Rightarrow> command_catch label e s
       | Inr data \<Rightarrow> (case js_get data ''status'' of
           Inl e \<Rightarrow> command_catch label e s
         | Inr st \<Rightarrow> (case js_get data ''message'' of
             Inl e \<Rightarrow> command_catch label e s
           | Inr m \<Rightarrow>
               if st = Some (JStr ''success'')
               then on_success (showStatus (interpolate m) ''info'' s)
               else showStatus (''Error: '' @ interpolate m) ''error'' s))))"



text \<open>
  \<open>confirmed\<close> is the user's answer to the prompt, \<open>f\<close> what \<^verbatim>\<open>/api/clear_db\<close> settles
  with, and \<open>g\<close> what the refresh that follows a success settles with.
\<close>

definition clearDbBtn_click :: "bool \<Rightarrow> fetched \<Rightarrow> fetched \<Rightarrow> page \<Rightarrow> page" where
  "clearDbBtn_click confirmed f g s0 =
     (let s = emit (Confirm ''Are you sure you want to clear the entire database?'') s0 in
      if \<not> confirmed then s
      else on_status ''clearing database'' (fetchArtifacts g) f
             (emit (Fetch ''POST'' ''/api/clear_db'' [])
               (showStatus ''Clearing database...'' ''info'' s)))"

definition showCorrelationsBtn_click :: "page \<Rightarrow> page" where
  "showCorrelationsBtn_click s = emit (WindowOpen ''/correlation'') s"

definition exportCsvBtn_click :: "page \<Rightarrow> page" where
  "exportCsvBtn_click s =
     showStatus ''CSV report initiated. Check your downloads.'' ''info''
       (emit (Navigate ''/api/export_csv'')
         (showStatus ''Generating CSV report...'' ''info'' s))"

section \<open>ThemePreference\<close>

definition setTheme :: "string \<Rightarrow> page \<Rightarrow> page" where
  "setTheme theme s = (emit (SetAttribute ''data-theme'' theme) s)\<lparr>
     data_theme := Some theme,
     localStorage := (localStorage s)(''theme'' \<mapsto> theme),
     toggle_checked := (theme = ''dark'')\<rparr>"

definition themeToggle_change :: "page \<Rightarrow> page" where
  "themeToggle_change s = (if toggle_checked s then setTheme ''dark'' s else setTheme ''light'' s)"

text \<open>The last lines of both scripts: \<^verbatim>\<open>if (savedTheme)\<close> is false for \<^verbatim>\<open>null\<close> and for the empty string.\<close>

definition apply_saved_theme :: "page \<Rightarrow> page" where
  "apply_saved_theme s = (case localStorage s ''theme'' of
      None \<Rightarrow> setTheme ''light'' s
    | Some savedTheme \<Rightarrow> if savedTheme \<noteq> [] then setTheme savedTheme s else setTheme ''light'' s)"

section \<open>Page load\<close>

text \<open>
  The \<^verbatim>\<open>DOMContentLoaded\<close> handlers, statement by statement. The first fetch is
  issued at once and settles only after the handler has run to its end, so the handler's
  synchronous part is a function of its own.
\<close>

definition listen_all :: "(string \<times> string) list \<Rightarrow> page \<Rightarrow> page" where
  "listen_all ls s = foldl (\<lambda>s (target, event). emit (Listen target event) s) s ls"

definition artifacts_listeners :: "(string \<times> string) list" where
  "artifacts_listeners =
     [(''exportPdfBtn'', ''click''), (''closeModalBtn'', ''click''), (''window'', ''click''),
      (''pdfReportForm'', ''submit''), (''parseFolderBtn'', ''click''),
      (''parseShellbagsBtn'', ''click''), (''clearDbBtn'', ''click''), (''refreshBtn'', ''click''),
      (''showCorrelationsBtn'', ''click''), (''exportCsvBtn'', ''click''),
      (''themeToggle'', ''change'')]"

definition correlation_listeners :: "(string \<times> string) list" where
  "correlation_listeners =
     [(''exportCorrelationPdfBtn'', ''click''), (''closeModalBtn'', ''click''),
      (''window'', ''click''), (''pdfReportForm'', ''submit''), (''themeToggle'', ''change'')]"

definition artifacts_onload_sync :: "page \<Rightarrow> page" where
  "artifacts_onload_sync s =
     apply_saved_theme (listen_all artifacts_listeners (fetchArtifacts_start s))"

definition artifacts_onload :: "fetched \<Rightarrow> page \<Rightarrow> page" where
  "artifacts_onload f s = fetchArtifacts_settle f (artifacts_onload_sync s)"

definition correlation_onload_sync :: "page \<Rightarrow> page" where
  "correlation_onload_sync s =
     apply_saved_theme (listen_all correlation_listeners (fetchCorrelations_start s))"

definition correlation_onload :: "fetched \<Rightarrow> page \<Rightarrow> page" where
  "correlation_onload f s = fetchCorrelations_settle f (correlation_onload_sync s)"

text \<open>
  A reload: a new document \<open>doc\<close> is parsed, and only \<^verbatim>\<open>localStorage\<close> survives from the
  page \<open>s\<close> that was left.
\<close>

definition reload :: "page \<Rightarrow> page \<Rightarrow> page" where
  "reload doc s = doc\<lparr>localStorage := localStorage s\<rparr>"

section \<open>Vocabulary of the properties\<close>

text \<open>
  The row the specification describes for a record: one cell per field, in the field
  order, holding the field's value, or nothing when the field is absent (missing or
  \<^verbatim>\<open>null\<close>).
\<close>

definition claimed_row :: "string list \<Rightarrow> (string \<times> json) list \<Rightarrow> row" where
  "claimed_row fs r = map (\<lambda>k. Cell 1 (case map_of r k of
       None \<Rightarrow> []
     | Some JNull \<Rightarrow> []
     | Some v \<Rightarrow> toString v)) fs"

text \<open>The falsy values: \<^verbatim>\<open>null\<close>, \<^verbatim>\<open>false\<close>, the empty string, and every number that is zero.\<close>

definition falsy_values :: "json set" where
  "falsy_values = {JNull, JBool False, JStr []} \<union> {JNum n |n. is_zero n}"

text \<open>The same row with every falsy value shown as nothing.\<close>

definition rendered_row :: "string list \<Rightarrow> (string \<times> json) list \<Rightarrow> row" where
  "rendered_row fs r = map (\<lambda>k. Cell 1 (case map_of r k of
       None \<Rightarrow> []
     | Some v \<Rightarrow> if v \<in> falsy_values then [] else toString v)) fs"

text \<open>How many times the artifacts refresh has been issued so far.\<close>

definition refreshes :: "page \<Rightarrow> nat" where
  "refreshes s = length (filter (\<lambda>e. e = Fetch ''GET'' ''/api/artifacts'' []) (log s))"

text \<open>The call settled with a body whose \<open>status\<close> is the string \<^verbatim>\<open>success\<close>.\<close>

definition returns_success :: "fetched \<Rightarrow> bool" where
  "returns_success f = (case result f of
      Inl e \<Rightarrow> False
    | Inr resp \<Rightarrow> (case json_body resp of
        Inr (JObj kvs) \<Rightarrow> map_of kvs ''status'' = Some (JStr ''success'')
      | _ \<Rightarrow> False))"

text \<open>The names under which downloads have been saved so far, oldest first.\<close>

definition downloads :: "page \<Rightarrow> string list" where
  "downloads s = concat (map (\<lambda>e. case e of Download n \<Rightarrow> [n] | _ \<Rightarrow> []) (log s))"

text \<open>A text that holds nothing the HTML parser reads as markup.\<close>

definition plain_text :: "string \<Rightarrow> bool" where
  "plain_text msg \<longleftrightarrow> CHR ''<'' \<notin> set msg \<and> CHR ''&'' \<notin> set msg
     \<and> CHR 0x0D \<notin> set msg \<and> CHR 0x00 \<notin> set msg"


text \<open>
  The header value \<open>d\<close>, read as the specification reads it. It mentions
  \<^verbatim>\<open>attachment\<close>; it has a filename parameter after \<open>pre\<close>: the word \<^verbatim>\<open>filename\<close>, then
  \<open>m\<close> (no semicolon, equals sign or line feed), then \<^verbatim>\<open>=\<close>, then the rest \<open>v\<close>; and
  that parameter is the first one of \<open>d\<close>.
\<close>

definition mentions_attachment :: "string \<Rightarrow> bool" where
  "mentions_attachment d \<longleftrightarrow> (\<exists>a b. d = a @ ''attachment'' @ b)"

definition parameter_at :: "string \<Rightarrow> string \<Rightarrow> string \<Rightarrow> string \<Rightarrow> bool" where
  "parameter_at d pre m v \<longleftrightarrow> d = pre @ ''filename'' @ m @ ''='' @ v
     \<and> CHR '';'' \<notin> set m \<and> CHR ''='' \<notin> set m \<and> CHR 0x0A \<notin> set m"

definition first_parameter :: "string \<Rightarrow> string \<Rightarrow> string \<Rightarrow> string \<Rightarrow> bool" where
  "first_parameter d pre m v \<longleftrightarrow> parameter_at d pre m v
     \<and> (\<forall>a m' w. parameter_at d a m' w \<longrightarrow> length pre \<le> length a)"

text \<open>
  The value \<open>v\<close> of a parameter starts with the quoted string \<open>nm\<close>: a quote, \<open>nm\<close>
  without that quote and without line breaks, the same quote again. Otherwise its bare
  token \<open>tok\<close> is what stands before the next semicolon or line feed.
\<close>

definition quoted_string :: "string \<Rightarrow> string \<Rightarrow> bool" where
  "quoted_string v nm \<longleftrightarrow> (\<exists>q r. v = q # nm @ q # r \<and> (q = CHR 0x22 \<or> q = CHR 0x27)
     \<and> q \<notin> set nm \<and> CHR 0x0A \<notin> set nm \<and> CHR 0x0D \<notin> set nm)"

definition bare_token :: "string \<Rightarrow> string \<Rightarrow> bool" where
  "bare_token v tok \<longleftrightarrow> (\<exists>r. v = tok @ r \<and> CHR '';'' \<notin> set tok \<and> CHR 0x0A \<notin> set tok
     \<and> (r = [] \<or> hd r = CHR '';'' \<or> hd r = CHR 0x0A))"

text \<open>A text with its quote characters removed.\<close>

definition without_quotes :: "string \<Rightarrow> string" where
  "without_quotes s = filter (\<lambda>c. c \<noteq> CHR 0x22 \<and> c \<noteq> CHR 0x27) s"

subsection \<open>Example inputs\<close>

text \<open>The numbers 0 and 7.\<close>

definition json_0 :: json where
  "json_0 = JNum (Number True ''0'')"

definition json_7 :: json where
  "json_7 = JNum (Number False ''7'')"

definition example_page :: page where
  "example_page = \<lparr>tbody = [], status_html = [], status_display = ''none'',
     modal_display = ''none'', form = [(''title'', []), (''analyst'', [])],
     folderPathInput = [], data_theme = None, toggle_checked = False,
     localStorage = Map.empty, clock = 0, timers = [], log = []\<rparr>"

definition json_response :: "nat \<Rightarrow> json \<Rightarrow> fetched" where
  "json_response d j = \<lparr>elapsed = d, result = Inr \<lparr>ok = True, content_disposition = None,
     json_body = Inr j, blob_body = Inr ()\<rparr>\<rparr>"

definition rejected :: "nat \<Rightarrow> fetched" where
  "rejected d = \<lparr>elapsed = d, result = Inl (TypeError ''Failed to fetch'')\<rparr>"

definition status_response :: "nat \<Rightarrow> string \<Rightarrow> string \<Rightarrow> fetched" where
  "status_response d st msg = json_response d (JObj [(''status'', JStr st), (''message'', JStr msg)])"

definition pdf_response :: "nat \<Rightarrow> string option \<Rightarrow> fetched" where
  "pdf_response d disposition = \<lparr>elapsed = d, result = Inr \<lparr>ok = True,
     content_disposition = disposition,
     json_body = Inl (SyntaxError ''Unexpected token % in JSON at position 0''),
     blob_body = Inr ()\<rparr>\<rparr>"

definition malformed :: "nat \<Rightarrow> fetched" where
  "malformed d = \<lparr>elapsed = d, result = Inr \<lparr>ok = True, content_disposition = None,
     json_body = Inl (SyntaxError ''Unexpected token < in JSON at position 0''),
     blob_body = Inr ()\<rparr>\<rparr>"

section \<open>Properties of the table refresh\<close>

lemma truthy_iff: "truthy v \<longleftrightarrow> v \<notin> falsy_values"
  by (cases v) (auto simp add: falsy_values_def)

lemma insertCells_object:
  "insertCells fs (JObj r) cells = (cells @ rendered_row fs r, None)"
  by (induction fs arbitrary: cells)
     (simp_all add: rendered_row_def js_get_def or_empty_def truthy_iff split: option.splits)

lemma renderRows_objects:
  "renderRows fs (map JObj rs) rows = (rows @ map (rendered_row fs) rs, None)"
  by (induction rs arbitrary: rows) (simp_all add: insertCells_object)

lemma tbody_emit [simp]: "tbody (emit e s) = tbody s"
  by (simp add: emit_def)

lemma tbody_await [simp]: "tbody (await d s) = tbody s"
  by (simp add: await_def advance_def)

lemma tbody_showStatus [simp]: "tbody (showStatus m t s) = tbody s"
  by (simp add: showStatus_def)

lemma fetchArtifacts_records:
  assumes "result f = Inr resp" and "json_body resp = Inr (JArr (map JObj rs))" and "rs \<noteq> []"
  shows "tbody (fetchArtifacts f s) = map (rendered_row artifact_fields) rs"
  using assms
  by (simp add: fetchArtifacts_def fetchArtifacts_settle_def fetchArtifacts_start_def Let_def
      js_length_def strictly_equals_0_def length_number_def js_forEach_def renderRows_objects)

lemma fetchCorrelations_records:
  assumes "result f = Inr resp" and "json_body resp = Inr (JArr (map JObj rs))" and "rs \<noteq> []"
  shows "tbody (fetchCorrelations f s) = map (rendered_row correlation_fields) rs"
  using assms
  by (simp add: fetchCorrelations_def fetchCorrelations_settle_def fetchCorrelations_start_def
      Let_def js_length_def strictly_equals_0_def length_number_def js_forEach_def
      renderRows_objects)

text \<open>
  C1 (as stated, refuted). The claim wants every cell to hold its field's value. A record
  whose \<open>id\<close> is the number 0 gets an empty \<open>id\<close> cell, not the text \<open>0\<close>.
\<close>

theorem refresh_zero_id_counterexample:
  "tbody (fetchArtifacts
      (json_response 0 (JArr [JObj [(''id'', json_0), (''name'', JStr ''a.pf'')]])) example_page)
     \<noteq> [claimed_row artifact_fields [(''id'', json_0), (''name'', JStr ''a.pf'')]]"
  by (simp add: fetchArtifacts_records [where rs = "[[(''id'', json_0), (''name'', JStr ''a.pf'')]]"]
      json_response_def rendered_row_def claimed_row_def artifact_fields_def
      json_0_def falsy_values_def)

text \<open>
  C1 (amended). When a refresh fetches a non-empty array of records, the table body
  afterwards is exactly one row per record, in the array's order, whatever the table held
  before; a row has one cell per field, in the field order, whose text is the field's
  value, or empty when the field is absent or its value is falsy (\<^verbatim>\<open>null\<close>,
  \<^verbatim>\<open>false\<close>, \<^verbatim>\<open>0\<close> or the empty string). This holds on both pages.
\<close>

theorem refresh_renders_records:
  assumes "result f = Inr resp" and "json_body resp = Inr (JArr (map JObj rs))" and "rs \<noteq> []"
  shows "tbody (fetchArtifacts f s) = map (rendered_row artifact_fields) rs
       \<and> tbody (fetchCorrelations f s) = map (rendered_row correlation_fields) rs"
  using assms by (simp add: fetchArtifacts_records fetchCorrelations_records)

theorem refresh_renders_records_witness:
  "tbody (fetchArtifacts (json_response 0
      (JArr [JObj [(''id'', json_0), (''name'', JStr ''a.pf'')], JObj [(''id'', json_7)]]))
      (example_page\<lparr>tbody := [[Cell 1 ''old'']]\<rparr>))
     = [[Cell 1 [], Cell 1 [], Cell 1 ''a.pf'', Cell 1 [], Cell 1 [], Cell 1 [], Cell 1 [], Cell 1 []],
        [Cell 1 ''7'', Cell 1 [], Cell 1 [], Cell 1 [], Cell 1 [], Cell 1 [], Cell 1 [], Cell 1 []]]
   \<and> tbody (fetchCorrelations (json_response 0
      (JArr [JObj [(''id'', json_0), (''name'', JStr ''a.pf'')], JObj [(''id'', json_7)]])) example_page)
     = [[Cell 1 [], Cell 1 [], Cell 1 [], Cell 1 []], [Cell 1 [], Cell 1 [], Cell 1 [], Cell 1 []]]"
  using refresh_renders_records [of
      "json_response 0 (JArr [JObj [(''id'', json_0), (''name'', JStr ''a.pf'')], JObj [(''id'', json_7)]])"
      _ "[[(''id'', json_0), (''name'', JStr ''a.pf'')], [(''id'', json_7)]]" example_page]
    refresh_renders_records [of
      "json_response 0 (JArr [JObj [(''id'', json_0), (''name'', JStr ''a.pf'')], JObj [(''id'', json_7)]])"
      _ "[[(''id'', json_0), (''name'', JStr ''a.pf'')], [(''id'', json_7)]]"
      "example_page\<lparr>tbody := [[Cell 1 ''old'']]\<rparr>"]
  by (simp add: json_response_def rendered_row_def artifact_fields_def correlation_fields_def
      json_0_def json_7_def falsy_values_def)

section \<open>Frame lemmas\<close>

lemma emit_simps [simp]:
  "status_html (emit e s) = status_html s"
  "status_display (emit e s) = status_display s"
  "modal_display (emit e s) = modal_display s"
  "form (emit e s) = form s"
  "timers (emit e s) = timers s"
  "clock (emit e s) = clock s"
  "log (emit e s) = log s @ [e]"
  by (simp_all add: emit_def)

lemma await_simps [simp]:
  "status_html (await d s) = status_html s"
  "modal_display (await d s) = modal_display s"
  "form (await d s) = form s"
  "log (await d s) = log s"
  "clock (await d s) = clock s + d"
  by (simp_all add: await_def advance_def)

lemma showStatus_simps [simp]:
  "modal_display (showStatus m t s) = modal_display s"
  "form (showStatus m t s) = form s"
  "log (showStatus m t s) = log s"
  "clock (showStatus m t s) = clock s"
  "status_display (showStatus m t s) = ''block''"
  by (simp_all add: showStatus_def)

lemma showStatus_html: \<open>status_html (showStatus m t s) = ''<p class="'' @ t @ ''">'' @ m @ ''</p>''\<close>
  by (simp add: showStatus_def)

section \<open>Empty collections and failed refreshes\<close>

text \<open>
  C7. A refresh that fetches an empty array leaves exactly one row in the table: a single
  placeholder cell whose column span is the number of fields of the entity, 8 for
  artifacts and 4 for correlations.
\<close>

theorem empty_collection_placeholder:
  assumes "result f = Inr resp" and "json_body resp = Inr (JArr [])"
  shows "tbody (fetchArtifacts f s) = [[Cell (length artifact_fields) ''No artifacts found.'']]
       \<and> length artifact_fields = 8
       \<and> tbody (fetchCorrelations f s) = [[Cell (length correlation_fields) ''No correlations found.'']]
       \<and> length correlation_fields = 4"
  using assms
  by (simp add: fetchArtifacts_def fetchArtifacts_settle_def fetchCorrelations_def
      fetchCorrelations_settle_def Let_def js_length_def strictly_equals_0_def length_number_def
      artifact_fields_def correlation_fields_def)

theorem empty_collection_placeholder_witness:
  "tbody (fetchArtifacts (json_response 3 (JArr [])) (example_page\<lparr>tbody := [[Cell 1 ''old'']]\<rparr>))
     = [[Cell 8 ''No artifacts found.'']]
   \<and> tbody (fetchCorrelations (json_response 3 (JArr [])) (example_page\<lparr>tbody := [[Cell 1 ''old'']]\<rparr>))
     = [[Cell 4 ''No correlations found.'']]"
  using empty_collection_placeholder [of "json_response 3 (JArr [])" _ "example_page\<lparr>tbody := [[Cell 1 ''old'']]\<rparr>"]
  by (simp add: json_response_def)

text \<open>
  C3 (as stated, refuted). On the correlations page a failed refresh does not keep the
  rows rendered before: the error row replaces the whole table body.
\<close>

theorem failed_refresh_counterexample:
  "tbody (fetchCorrelations (rejected 0) (example_page\<lparr>tbody := [[Cell 1 ''old'']]\<rparr>))
     = [[Cell 4 ''Error fetching correlations.'']]
   \<and> [Cell 1 ''old''] \<notin> set (tbody (fetchCorrelations (rejected 0) (example_page\<lparr>tbody := [[Cell 1 ''old'']]\<rparr>)))"
  by (simp add: fetchCorrelations_def fetchCorrelations_settle_def fetchCorrelations_catch_def
      rejected_def Let_def)

text \<open>
  C3 (amended). When a refresh fails (the request is rejected, or the body is not JSON),
  the correlations page replaces its table body by a single error row and leaves the
  banner's content alone; the artifacts page leaves its table body as it was and shows
  the failure in the status banner.
\<close>

theorem failed_refresh:
  assumes "result f = Inl e \<or> (\<exists>resp. result f = Inr resp \<and> json_body resp = Inl e)"
  shows \<open>tbody (fetchCorrelations f s) = [[Cell 4 ''Error fetching correlations.'']]
       \<and> status_html (fetchCorrelations f s) = status_html s
       \<and> tbody (fetchArtifacts f s) = tbody s
       \<and> status_html (fetchArtifacts f s) = ''<p class="error">Error fetching artifacts.</p>''
       \<and> status_display (fetchArtifacts f s) = ''block''\<close>
  using assms
  by (auto simp add: fetchCorrelations_def fetchCorrelations_settle_def fetchCorrelations_catch_def
      fetchCorrelations_start_def fetchArtifacts_def fetchArtifacts_settle_def
      fetchArtifacts_catch_def fetchArtifacts_start_def Let_def showStatus_html)

theorem failed_refresh_witness:
  \<open>tbody (fetchCorrelations (rejected 0) (example_page\<lparr>tbody := [[Cell 1 ''old'']]\<rparr>))
     = [[Cell 4 ''Error fetching correlations.'']]
   \<and> tbody (fetchArtifacts (rejected 0) (example_page\<lparr>tbody := [[Cell 1 ''old'']]\<rparr>)) = [[Cell 1 ''old'']]
   \<and> status_html (fetchArtifacts (rejected 0) (example_page\<lparr>tbody := [[Cell 1 ''old'']]\<rparr>))
     = ''<p class="error">Error fetching artifacts.</p>''
   \<and> tbody (fetchCorrelations (malformed 0) (example_page\<lparr>tbody := [[Cell 1 ''old'']]\<rparr>))
     = [[Cell 4 ''Error fetching correlations.'']]
   \<and> tbody (fetchArtifacts (malformed 0) (example_page\<lparr>tbody := [[Cell 1 ''old'']]\<rparr>)) = [[Cell 1 ''old'']]\<close>
  using failed_refresh [of "rejected 0" "TypeError ''Failed to fetch''" "example_page\<lparr>tbody := [[Cell 1 ''old'']]\<rparr>"]
    failed_refresh [of "malformed 0" "SyntaxError ''Unexpected token < in JSON at position 0''"
      "example_page\<lparr>tbody := [[Cell 1 ''old'']]\<rparr>"]
  by (simp add: rejected_def malformed_def)

section \<open>Falsy field values\<close>

text \<open>
  C10. A cell is filled with \<^verbatim>\<open>field || ''\<close>, so a field that is absent, \<^verbatim>\<open>null\<close>,
  \<^verbatim>\<open>false\<close>, the number 0 or the empty string gives an empty cell, on both pages; a
  record whose \<open>id\<close> is 0 is rendered like a record without \<open>id\<close>.
\<close>

theorem falsy_field_renders_empty:
  assumes "result f = Inr resp" and "json_body resp = Inr (JArr (map JObj rs))"
    and "i < length rs"
    and "map_of (rs ! i) k \<in> insert None (Some ` falsy_values)"
  shows "(\<forall>j. j < length artifact_fields \<and> artifact_fields ! j = k \<longrightarrow>
            textContent (tbody (fetchArtifacts f s) ! i ! j) = [])
       \<and> (\<forall>j. j < length correlation_fields \<and> correlation_fields ! j = k \<longrightarrow>
            textContent (tbody (fetchCorrelations f s) ! i ! j) = [])"
proof -
  from assms(3) have ne: "rs \<noteq> []" by auto
  have row: "j < length fs \<Longrightarrow> fs ! j = k \<Longrightarrow> textContent (rendered_row fs (rs ! i) ! j) = []" for fs j
    using assms(4) by (auto simp add: rendered_row_def)
  show ?thesis
    using assms(3) row
    by (simp add: fetchArtifacts_records [OF assms(1,2) ne] fetchCorrelations_records [OF assms(1,2) ne])
qed

theorem falsy_field_renders_empty_witness:
  "textContent (tbody (fetchArtifacts (json_response 0 (JArr [JObj [(''id'', json_0)]])) example_page) ! 0 ! 0) = []
   \<and> textContent (tbody (fetchCorrelations (json_response 0 (JArr [JObj [(''anomaly'', JBool False)]])) example_page) ! 0 ! 3) = []
   \<and> tbody (fetchArtifacts (json_response 0 (JArr [JObj [(''id'', json_0)]])) example_page)
     = tbody (fetchArtifacts (json_response 0 (JArr [JObj []])) example_page)"
proof -
  have a: "textContent (tbody (fetchArtifacts (json_response 0 (JArr [JObj [(''id'', json_0)]])) example_page) ! 0 ! 0) = []"
    using falsy_field_renders_empty [of "json_response 0 (JArr [JObj [(''id'', json_0)]])" _
        "[[(''id'', json_0)]]" 0 "''id''" example_page]
    by (simp add: json_response_def artifact_fields_def json_0_def falsy_values_def)
  have b: "textContent (tbody (fetchCorrelations (json_response 0 (JArr [JObj [(''anomaly'', JBool False)]])) example_page) ! 0 ! 3) = []"
    using falsy_field_renders_empty [of "json_response 0 (JArr [JObj [(''anomaly'', JBool False)]])" _
        "[[(''anomaly'', JBool False)]]" 0 "''anomaly''" example_page]
    by (simp add: json_response_def correlation_fields_def falsy_values_def)
  have c: "tbody (fetchArtifacts (json_response 0 (JArr [JObj [(''id'', json_0)]])) example_page)
     = tbody (fetchArtifacts (json_response 0 (JArr [JObj []])) example_page)"
    by (simp add: fetchArtifacts_records [where rs = "[[(''id'', json_0)]]"]
        fetchArtifacts_records [where rs = "[[]]"] json_response_def rendered_row_def
        json_0_def falsy_values_def)
  from a b c show ?thesis by simp
qed

section \<open>Properties of the export form\<close>

lemma form_pdf_catch [simp]: "form (pdf_catch e s) = form s"
  by (simp add: pdf_catch_def)

lemma form_correlation_pdf_catch [simp]: "form (correlation_pdf_catch e s) = form s"
  by (simp add: correlation_pdf_catch_def)

lemma form_save_as [simp]: "form (save_as n s) = form s"
  by (simp add: save_as_def)

lemma submit_finally_simps:
  "modal_display (submit_finally s) = ''none''"
  "map snd (form (submit_finally s)) = replicate (length (form s)) []"
  "map fst (form (submit_finally s)) = map fst (form s)"
  by (simp_all add: submit_finally_def form_reset_def map_replicate_const case_prod_unfold comp_def)

text \<open>
  C4. Whatever the export request settles with (a download, an error body, an unreadable
  body or a transport failure), the submit handler of either page ends with the modal
  hidden and every control of the form empty.
\<close>

theorem submit_closes_and_resets:
  "modal_display (pdfReportForm_submit f s) = ''none''
   \<and> map snd (form (pdfReportForm_submit f s)) = replicate (length (form s)) []
   \<and> map fst (form (pdfReportForm_submit f s)) = map fst (form s)
   \<and> modal_display (correlation_pdfReportForm_submit f s) = ''none''
   \<and> map snd (form (correlation_pdfReportForm_submit f s)) = replicate (length (form s)) []
   \<and> map fst (form (correlation_pdfReportForm_submit f s)) = map fst (form s)"
  by (simp add: pdfReportForm_submit_def correlation_pdfReportForm_submit_def Let_def
      submit_finally_simps split: sum.splits)

section \<open>StatusBanner timing\<close>

lemma advance_simps [simp]:
  "status_html (advance t s) = status_html s"
  "clock (advance t s) = t"
  "timers (advance t s) = filter (\<lambda>u. t < u) (timers s)"
  "status_display (advance t s) = (if \<exists>u \<in> set (timers s). u \<le> t then ''none'' else status_display s)"
  by (auto simp add: advance_def filter_empty_conv)

lemma timers_showStatus [simp]: "timers (showStatus m ty s) = timers s @ [clock s + 5000]"
  by (simp add: showStatus_def)

text \<open>
  C9. \<open>show(msg, 'error')\<close> at time \<open>t0\<close> and \<open>show(msg2, 'info')\<close> at \<open>t1\<close>, less than
  five seconds later: after the second call the banner holds \<open>msg2\<close> and is visible; the
  first call's timer is still pending, so at \<open>t0 + 5000\<close> the banner is hidden, with
  \<open>msg2\<close> in it and the second call's timer (due at \<open>t1 + 5000\<close>) not yet fired. When no
  older timer was pending, the banner stays visible at every moment before \<open>t0 + 5000\<close>.
\<close>

theorem overlapping_show_keeps_first_timer:
  assumes "clock s \<le> t0" and "t0 \<le> t1" and "t1 < t0 + 5000"
  shows \<open>status_html (showStatus msg2 ''info'' (advance t1 (showStatus msg ''error'' (advance t0 s))))
           = ''<p class="info">'' @ msg2 @ ''</p>''
       \<and> status_display (showStatus msg2 ''info'' (advance t1 (showStatus msg ''error'' (advance t0 s))))
           = ''block''
       \<and> status_display (advance (t0 + 5000)
            (showStatus msg2 ''info'' (advance t1 (showStatus msg ''error'' (advance t0 s))))) = ''none''
       \<and> status_html (advance (t0 + 5000)
            (showStatus msg2 ''info'' (advance t1 (showStatus msg ''error'' (advance t0 s)))))
           = ''<p class="info">'' @ msg2 @ ''</p>''
       \<and> (t0 < t1 \<longrightarrow> t1 + 5000 \<in> set (timers (advance (t0 + 5000)
            (showStatus msg2 ''info'' (advance t1 (showStatus msg ''error'' (advance t0 s)))))))
       \<and> (\<forall>t. timers s = [] \<and> t1 \<le> t \<and> t < t0 + 5000 \<longrightarrow>
            status_display (advance t
              (showStatus msg2 ''info'' (advance t1 (showStatus msg ''error'' (advance t0 s))))) = ''block'')\<close>
  using assms by (auto simp add: showStatus_html)

theorem overlapping_show_keeps_first_timer_witness:
  \<open>status_html (showStatus ''saved'' ''info'' (advance 3000 (showStatus ''failed'' ''error'' (advance 1000 example_page))))
           = ''<p class="info">saved</p>''
   \<and> status_display (advance 5999
         (showStatus ''saved'' ''info'' (advance 3000 (showStatus ''failed'' ''error'' (advance 1000 example_page))))) = ''block''
   \<and> status_display (advance 6000
         (showStatus ''saved'' ''info'' (advance 3000 (showStatus ''failed'' ''error'' (advance 1000 example_page))))) = ''none''
   \<and> timers (advance 6000
         (showStatus ''saved'' ''info'' (advance 3000 (showStatus ''failed'' ''error'' (advance 1000 example_page))))) = [8000]\<close>
  using overlapping_show_keeps_first_timer [of example_page 1000 3000 "''saved''" "''failed''"]
  by (simp add: example_page_def)

section \<open>Properties of the commands\<close>

lemma refreshes_simps [simp]:
  "refreshes (emit e s) = refreshes s + (if e = Fetch ''GET'' ''/api/artifacts'' [] then 1 else 0)"
  "refreshes (showStatus m ty s) = refreshes s"
  "refreshes (await d s) = refreshes s"
  "refreshes (s\<lparr>tbody := rows\<rparr>) = refreshes s"
  by (simp_all add: refreshes_def)

lemma refreshes_fetchArtifacts: "refreshes (fetchArtifacts g s) = Suc (refreshes s)"
  by (simp add: fetchArtifacts_def fetchArtifacts_settle_def fetchArtifacts_start_def
      fetchArtifacts_catch_def Let_def split: sum.splits prod.splits option.splits)

lemma on_status_success:
  assumes "result f = Inr resp" and "json_body resp = Inr (JObj kvs)"
    and "map_of kvs ''status'' = Some (JStr ''success'')"
  shows "on_status label k f s = k (showStatus (interpolate (map_of kvs ''message'')) ''info'' (await (elapsed f) s))"
  using assms by (simp add: on_status_def Let_def js_get_def)


lemma on_status_not_success:
  assumes "\<not> returns_success f"
  shows "refreshes (on_status label k f s) = refreshes s"
  using assms
  by (auto simp add: on_status_def returns_success_def command_catch_def js_get_def Let_def
      split: sum.splits json.splits)





lemma plain_text_append: "plain_text (a @ b) \<longleftrightarrow> plain_text a \<and> plain_text b"
  by (auto simp add: plain_text_def)




text \<open>
  C6. Declining the prompt of the clear command issues no request and leaves table,
  banner and pending timers as they were. After a confirmation, a call that returns
  status \<^verbatim>\<open>success\<close> is followed by exactly one artifacts refresh, and a call that fails
  in any way is followed by none.
\<close>

theorem clear_dataset_gate:
  \<open>log (clearDbBtn_click False f g s) = log s @ [Confirm ''Are you sure you want to clear the entire database?'']
   \<and> tbody (clearDbBtn_click False f g s) = tbody s
   \<and> status_html (clearDbBtn_click False f g s) = status_html s
   \<and> status_display (clearDbBtn_click False f g s) = status_display s
   \<and> timers (clearDbBtn_click False f g s) = timers s
   \<and> (returns_success f \<longrightarrow> refreshes (clearDbBtn_click True f g s) = refreshes s + 1)
   \<and> (\<not> returns_success f \<longrightarrow> refreshes (clearDbBtn_click True f g s) = refreshes s)\<close>
proof (intro conjI impI)
  assume "returns_success f"
  then obtain resp kvs where "result f = Inr resp" "json_body resp = Inr (JObj kvs)"
      "map_of kvs ''status'' = Some (JStr ''success'')"
    by (auto simp add: returns_success_def split: sum.splits json.splits)
  then show "refreshes (clearDbBtn_click True f g s) = refreshes s + 1"
    by (simp add: clearDbBtn_click_def Let_def on_status_success refreshes_fetchArtifacts)
next
  assume "\<not> returns_success f"
  then show "refreshes (clearDbBtn_click True f g s) = refreshes s"
    by (simp add: clearDbBtn_click_def Let_def on_status_not_success)
qed (simp_all add: clearDbBtn_click_def Let_def)

theorem clear_dataset_gate_witness:
  "refreshes (clearDbBtn_click True (status_response 5 ''success'' ''cleared'') (json_response 2 (JArr [])) example_page) = 1
   \<and> refreshes (clearDbBtn_click True (status_response 5 ''error'' ''locked'') (json_response 2 (JArr [])) example_page) = 0
   \<and> refreshes (clearDbBtn_click True (rejected 5) (json_response 2 (JArr [])) example_page) = 0
   \<and> log (clearDbBtn_click False (status_response 5 ''success'' ''cleared'') (json_response 2 (JArr [])) example_page)
       = [Confirm ''Are you sure you want to clear the entire database?'']"
  using clear_dataset_gate [of "status_response 5 ''success'' ''cleared''" "json_response 2 (JArr [])" example_page]
    clear_dataset_gate [of "status_response 5 ''error'' ''locked''" "json_response 2 (JArr [])" example_page]
    clear_dataset_gate [of "rejected 5" "json_response 2 (JArr [])" example_page]
  by (simp add: returns_success_def status_response_def json_response_def rejected_def
      refreshes_def example_page_def)

section \<open>Properties of the theme preference\<close>

lemma theme_emit [simp]:
  "data_theme (emit e s) = data_theme s"
  "toggle_checked (emit e s) = toggle_checked s"
  "localStorage (emit e s) = localStorage s"
  by (simp_all add: emit_def)

lemma listen_all_simps [simp]:
  "data_theme (listen_all ls s) = data_theme s"
  "toggle_checked (listen_all ls s) = toggle_checked s"
  "localStorage (listen_all ls s) = localStorage s"
  "tbody (listen_all ls s) = tbody s"
  "log (listen_all ls s) = log s @ map (\<lambda>(target, event). Listen target event) ls"
  unfolding listen_all_def
  by (induction ls arbitrary: s) (simp_all add: case_prod_unfold)

lemma theme_await [simp]:
  "data_theme (await d s) = data_theme s"
  "toggle_checked (await d s) = toggle_checked s"
  "localStorage (await d s) = localStorage s"
  by (simp_all add: await_def advance_def)

lemma theme_showStatus [simp]:
  "data_theme (showStatus m ty s) = data_theme s"
  "toggle_checked (showStatus m ty s) = toggle_checked s"
  "localStorage (showStatus m ty s) = localStorage s"
  by (simp_all add: showStatus_def)

lemma theme_fetchArtifacts_settle [simp]:
  "data_theme (fetchArtifacts_settle f s) = data_theme s"
  "toggle_checked (fetchArtifacts_settle f s) = toggle_checked s"
  "localStorage (fetchArtifacts_settle f s) = localStorage s"
  by (simp_all add: fetchArtifacts_settle_def fetchArtifacts_catch_def Let_def
      split: sum.splits prod.splits option.splits)

lemma theme_fetchCorrelations_settle [simp]:
  "data_theme (fetchCorrelations_settle f s) = data_theme s"
  "toggle_checked (fetchCorrelations_settle f s) = toggle_checked s"
  "localStorage (fetchCorrelations_settle f s) = localStorage s"
  by (simp_all add: fetchCorrelations_settle_def fetchCorrelations_catch_def Let_def
      split: sum.splits prod.splits option.splits)

lemma setTheme_simps [simp]:
  "data_theme (setTheme v s) = Some v"
  "toggle_checked (setTheme v s) = (v = ''dark'')"
  "localStorage (setTheme v s) = (localStorage s)(''theme'' \<mapsto> v)"
  "tbody (setTheme v s) = tbody s"
  "log (setTheme v s) = log s @ [SetAttribute ''data-theme'' v]"
  by (simp_all add: setTheme_def emit_def)

lemma apply_saved_theme_stored:
  "localStorage s ''theme'' = Some v \<Longrightarrow> v \<noteq> [] \<Longrightarrow> apply_saved_theme s = setTheme v s"
  by (simp add: apply_saved_theme_def)

lemma apply_saved_theme_unset:
  "localStorage s ''theme'' = None \<Longrightarrow> apply_saved_theme s = setTheme ''light'' s"
  by (simp add: apply_saved_theme_def)

lemma fetch_start_simps [simp]:
  "localStorage (fetchArtifacts_start s) = localStorage s"
  "localStorage (fetchCorrelations_start s) = localStorage s"
  "tbody (fetchArtifacts_start s) = tbody s"
  "tbody (fetchCorrelations_start s) = tbody s"
  "log (fetchArtifacts_start s) = log s @ [Fetch ''GET'' ''/api/artifacts'' []]"
  "log (fetchCorrelations_start s) = log s @ [Fetch ''GET'' ''/api/correlations'' []]"
  by (simp_all add: fetchArtifacts_start_def fetchCorrelations_start_def)

text \<open>
  C8 (as stated, refuted). The stored theme is not applied before any other
  initialization: on the artifacts page the load handler first issues the initial fetch
  and registers its eleven listeners, and applies the theme last.
\<close>

theorem theme_applied_first_counterexample:
  "log (artifacts_onload_sync (reload example_page (setTheme ''dark'' example_page)))
     = Fetch ''GET'' ''/api/artifacts'' []
       # map (\<lambda>(target, event). Listen target event) artifacts_listeners
       @ [SetAttribute ''data-theme'' ''dark'']
   \<and> hd (log (artifacts_onload_sync (reload example_page (setTheme ''dark'' example_page))))
     \<noteq> SetAttribute ''data-theme'' ''dark''"
  by (simp add: artifacts_onload_sync_def reload_def example_page_def apply_saved_theme_def)

text \<open>
  C8 (amended). \<open>setTheme\<close> stores the chosen value under the key \<open>theme\<close>. On every page
  load, of either page, the stored value is read and applied as the last step of the load
  handler, after the initial fetch was issued and the listeners were registered, and
  before the fetched table is rendered; when nothing is stored the theme is \<open>light\<close>.
  So after \<open>setTheme('dark')\<close> a reload applies \<open>dark\<close> and checks the toggle.
\<close>

theorem theme_persists_across_reload:
  "localStorage (setTheme v s) ''theme'' = Some v
   \<and> (localStorage doc ''theme'' = Some v \<and> v \<noteq> [] \<longrightarrow>
        data_theme (artifacts_onload f doc) = Some v
      \<and> toggle_checked (artifacts_onload f doc) = (v = ''dark'')
      \<and> data_theme (correlation_onload f doc) = Some v
      \<and> toggle_checked (correlation_onload f doc) = (v = ''dark'')
      \<and> log (artifacts_onload_sync doc) = log doc @ Fetch ''GET'' ''/api/artifacts'' []
            # map (\<lambda>(target, event). Listen target event) artifacts_listeners
            @ [SetAttribute ''data-theme'' v]
      \<and> log (correlation_onload_sync doc) = log doc @ Fetch ''GET'' ''/api/correlations'' []
            # map (\<lambda>(target, event). Listen target event) correlation_listeners
            @ [SetAttribute ''data-theme'' v])
   \<and> (localStorage doc ''theme'' = None \<longrightarrow>
        data_theme (artifacts_onload f doc) = Some ''light''
      \<and> \<not> toggle_checked (artifacts_onload f doc)
      \<and> data_theme (correlation_onload f doc) = Some ''light''
      \<and> \<not> toggle_checked (correlation_onload f doc))
   \<and> data_theme (artifacts_onload f (reload doc (setTheme ''dark'' s))) = Some ''dark''
   \<and> toggle_checked (artifacts_onload f (reload doc (setTheme ''dark'' s)))
   \<and> data_theme (correlation_onload f (reload doc (setTheme ''dark'' s))) = Some ''dark''
   \<and> toggle_checked (correlation_onload f (reload doc (setTheme ''dark'' s)))
   \<and> tbody (artifacts_onload_sync doc) = tbody doc
   \<and> tbody (correlation_onload_sync doc) = tbody doc"
proof -
  have stored: "localStorage (reload doc (setTheme ''dark'' s)) ''theme'' = Some ''dark''"
    by (simp add: reload_def)
  have a: "localStorage d ''theme'' = Some w \<Longrightarrow> w \<noteq> [] \<Longrightarrow>
      artifacts_onload_sync d = setTheme w (listen_all artifacts_listeners (fetchArtifacts_start d))" for d w
    by (simp add: artifacts_onload_sync_def apply_saved_theme_def)
  have c: "localStorage d ''theme'' = Some w \<Longrightarrow> w \<noteq> [] \<Longrightarrow>
      correlation_onload_sync d = setTheme w (listen_all correlation_listeners (fetchCorrelations_start d))" for d w
    by (simp add: correlation_onload_sync_def apply_saved_theme_def)
  have a0: "localStorage d ''theme'' = None \<Longrightarrow>
      artifacts_onload_sync d = setTheme ''light'' (listen_all artifacts_listeners (fetchArtifacts_start d))" for d
    by (simp add: artifacts_onload_sync_def apply_saved_theme_def)
  have c0: "localStorage d ''theme'' = None \<Longrightarrow>
      correlation_onload_sync d = setTheme ''light'' (listen_all correlation_listeners (fetchCorrelations_start d))" for d
    by (simp add: correlation_onload_sync_def apply_saved_theme_def)
  have t: "tbody (artifacts_onload_sync doc) = tbody doc" "tbody (correlation_onload_sync doc) = tbody doc"
    by (simp_all add: artifacts_onload_sync_def correlation_onload_sync_def apply_saved_theme_def
        split: option.splits)
  show ?thesis
    using a [OF stored] c [OF stored] t
    by (auto simp add: artifacts_onload_def correlation_onload_def a c a0 c0)
qed

theorem theme_persists_across_reload_witness:
  "data_theme (artifacts_onload (json_response 4 (JArr [])) (reload example_page (setTheme ''dark'' example_page))) = Some ''dark''
   \<and> data_theme (correlation_onload (json_response 4 (JArr [])) (reload example_page (setTheme ''light'' example_page))) = Some ''light''
   \<and> data_theme (artifacts_onload (json_response 4 (JArr [])) example_page) = Some ''light''"
  using theme_persists_across_reload [of "''dark''" example_page "reload example_page (setTheme ''dark'' example_page)" "json_response 4 (JArr [])"]
    theme_persists_across_reload [of "''light''" example_page "reload example_page (setTheme ''light'' example_page)" "json_response 4 (JArr [])"]
    theme_persists_across_reload [of "''light''" example_page "example_page" "json_response 4 (JArr [])"]
  by (simp add: reload_def example_page_def)

section \<open>Properties of the download's filename\<close>

lemma js_includes_iff: "js_includes sub s \<longleftrightarrow> (\<exists>a b. s = a @ sub @ b)"
proof (induction s)
  case Nil
  then show ?case by (auto simp add: prefix_def)
next
  case (Cons c cs)
  show ?case
  proof
    assume "js_includes sub (c # cs)"
    then consider "prefix sub (c # cs)" | "js_includes sub cs" by auto
    then show "\<exists>a b. c # cs = a @ sub @ b"
    proof cases
      case 1
      then obtain b where "c # cs = sub @ b" by (auto simp add: prefix_def)
      then have "c # cs = [] @ sub @ b" by simp
      then show ?thesis by blast
    next
      case 2
      with Cons.IH obtain a b where "cs = a @ sub @ b" by blast
      then have "c # cs = (c # a) @ sub @ b" by simp
      then show ?thesis by blast
    qed
  next
    assume "\<exists>a b. c # cs = a @ sub @ b"
    then obtain a b where ab: "c # cs = a @ sub @ b" by blast
    show "js_includes sub (c # cs)"
    proof (cases a)
      case Nil
      with ab have "prefix sub (c # cs)" by (simp add: prefix_def)
      then show ?thesis by simp
    next
      case (Cons x a')
      with ab have "cs = a' @ sub @ b" by simp
      with Cons.IH have "js_includes sub cs" by blast
      then show ?thesis by simp
    qed
  qed
qed

lemma match_here_prefix: "match_here s \<noteq> None \<Longrightarrow> prefix ''filename'' s"
  by (simp add: match_here_def split: if_splits)

lemma regex_exec_skip:
  assumes "\<And>a b. pre = a @ b \<Longrightarrow> b \<noteq> [] \<Longrightarrow> match_here (b @ t) = None"
  shows "regex_exec (pre @ t) = regex_exec t"
  using assms
proof (induction pre)
  case Nil
  then show ?case by simp
next
  case (Cons c p)
  have "match_here ((c # p) @ t) = None"
    using Cons.prems [of "[]" "c # p"] by simp
  moreover have "regex_exec (p @ t) = regex_exec t"
  proof (rule Cons.IH)
    fix a b assume "p = a @ b" and "b \<noteq> []"
    then show "match_here (b @ t) = None"
      using Cons.prems [of "c # a" b] by simp
  qed
  ultimately show ?case by simp
qed

lemma first_filename:
  assumes "\<not> js_includes ''filename'' (pre @ ''filenam'')"
    and "pre = a @ b" and "b \<noteq> []"
  shows "match_here (b @ ''filename'' @ t) = None"
proof (rule ccontr)
  assume "match_here (b @ ''filename'' @ t) \<noteq> None"
  then have "prefix ''filename'' (b @ ''filename'' @ t)" by (rule match_here_prefix)
  then have "prefix ''filename'' ((b @ ''filenam'') @ ''e'' @ t)" by simp
  moreover have "length ''filename'' \<le> length (b @ ''filenam'')"
    using \<open>b \<noteq> []\<close> by (cases b) simp_all
  ultimately have "prefix ''filename'' (b @ ''filenam'')"
    by (metis prefix_length_prefix prefix_prefix prefix_order.order_refl)
  then obtain r where "b @ ''filenam'' = ''filename'' @ r" by (auto simp add: prefix_def)
  then have "pre @ ''filenam'' = a @ ''filename'' @ r" using assms(2) by simp
  then have "js_includes ''filename'' (pre @ ''filenam'')"
    unfolding js_includes_iff by blast
  with assms(1) show False by simp
qed

lemma lazy_until_closing:
  "q \<notin> set nm \<Longrightarrow> list_all dot_char nm \<Longrightarrow> lazy_until q (nm @ q # rest) = Some nm"
  by (induction nm) auto

lemma downloads_simps [simp]:
  "downloads (emit e s) = downloads s @ (case e of Download n \<Rightarrow> [n] | _ \<Rightarrow> [])"
  "downloads (showStatus m ty s) = downloads s"
  "downloads (await d s) = downloads s"
  "downloads (submit_finally s) = downloads s"
  by (simp_all add: downloads_def submit_finally_def)

lemma downloads_submit:
  assumes "result f = Inr resp" and "ok resp" and "blob_body resp = Inr u"
  shows "downloads (pdfReportForm_submit f s)
           = downloads s @ [download_filename ''artifacts_report.pdf'' (content_disposition resp)]"
    and "downloads (correlation_pdfReportForm_submit f s)
           = downloads s @ [download_filename ''correlation_report.pdf'' (content_disposition resp)]"
  using assms
  by (simp_all add: pdfReportForm_submit_def correlation_pdfReportForm_submit_def Let_def save_as_def)

lemma name_chars_iff:
  "list_all name_char m \<longleftrightarrow> CHR '';'' \<notin> set m \<and> CHR ''='' \<notin> set m \<and> CHR 0x0A \<notin> set m"
  by (induction m) (auto simp add: name_char_def)

lemma match_here_parameter_general:
  assumes "list_all name_char m"
  shows "match_here (''filename'' @ m @ ''='' @ v) = Some (group1 v)"
proof -
  have "dropWhile name_char (m @ CHR ''='' # v) = CHR ''='' # v"
    using assms by (induction m) (simp_all add: name_char_def)
  then show ?thesis by (simp add: match_here_def)
qed

lemma match_here_SomeD:
  assumes "match_here s = Some g"
  shows "\<exists>m w. s = ''filename'' @ m @ ''='' @ w \<and> list_all name_char m \<and> g = group1 w"
proof -
  from assms have p: "prefix ''filename'' s"
    by (simp add: match_here_def split: if_splits)
  then obtain r where s: "s = ''filename'' @ r" by (auto simp add: prefix_def)
  with assms p have "\<exists>w. dropWhile name_char r = CHR ''='' # w \<and> g = group1 w"
    by (auto simp add: match_here_def split: list.splits if_splits)
  then obtain w where w: "dropWhile name_char r = CHR ''='' # w" and g: "g = group1 w" by blast
  have "r = takeWhile name_char r @ CHR ''='' # w"
    using takeWhile_dropWhile_id [of name_char r] w by simp
  moreover have "list_all name_char (takeWhile name_char r)"
    by (simp add: list_all_iff) (meson set_takeWhileD)
  ultimately show ?thesis using s g by (metis append_Cons append_Nil)
qed

lemma regex_exec_NoneI:
  assumes "\<And>a b. d = a @ b \<Longrightarrow> match_here b = None"
  shows "regex_exec d = None"
  using assms
proof (induction d)
  case Nil
  then show ?case by simp
next
  case (Cons c cs)
  have "match_here (c # cs) = None" using Cons.prems [of "[]" "c # cs"] by simp
  moreover have "regex_exec cs = None"
  proof (rule Cons.IH)
    fix a b assume "cs = a @ b"
    then show "match_here b = None" using Cons.prems [of "c # a" b] by simp
  qed
  ultimately show ?case by simp
qed

lemma regex_exec_here: "match_here t = Some g \<Longrightarrow> regex_exec t = Some g"
  by (cases t) simp_all

lemma no_parameter_no_match:
  assumes "\<not> (\<exists>pre m v. parameter_at d pre m v)"
  shows "regex_exec d = None"
proof (rule regex_exec_NoneI)
  fix a b assume d: "d = a @ b"
  show "match_here b = None"
  proof (rule ccontr)
    assume "match_here b \<noteq> None"
    then obtain g where "match_here b = Some g" by auto
    from match_here_SomeD [OF this] obtain m w where
      "b = ''filename'' @ m @ ''='' @ w" "list_all name_char m" by blast
    with d have "parameter_at d a m w"
      by (simp add: parameter_at_def name_chars_iff)
    with assms show False by blast
  qed
qed

lemma first_parameter_match:
  assumes "first_parameter d pre m v"
  shows "regex_exec d = Some (group1 v)"
proof -
  let ?t = "''filename'' @ m @ ''='' @ v"
  from assms have d: "d = pre @ ?t" and m: "list_all name_char m"
    and least: "\<And>a m' w. parameter_at d a m' w \<Longrightarrow> length pre \<le> length a"
    by (auto simp add: first_parameter_def parameter_at_def name_chars_iff)
  have "regex_exec (pre @ ?t) = regex_exec ?t"
  proof (rule regex_exec_skip)
    fix a b assume pre: "pre = a @ b" and b: "b \<noteq> []"
    show "match_here (b @ ?t) = None"
    proof (rule ccontr)
      assume "match_here (b @ ?t) \<noteq> None"
      then obtain g where "match_here (b @ ?t) = Some g" by auto
      from match_here_SomeD [OF this] obtain m' w where
        "b @ ?t = ''filename'' @ m' @ ''='' @ w" "list_all name_char m'" by blast
      with d pre have "parameter_at d a m' w"
        by (simp add: parameter_at_def name_chars_iff)
      from least [OF this] pre b show False by simp
    qed
  qed
  moreover have "regex_exec ?t = Some (group1 v)"
    by (rule regex_exec_here) (rule match_here_parameter_general [OF m])
  ultimately show ?thesis using d by simp
qed

lemma lazy_until_SomeD:
  "lazy_until q w = Some b \<Longrightarrow> \<exists>r. w = b @ q # r \<and> q \<notin> set b \<and> list_all dot_char b"
proof (induction w arbitrary: b)
  case Nil
  then show ?case by simp
next
  case (Cons c cs)
  show ?case
  proof (cases "c = q")
    case True
    with Cons.prems show ?thesis by auto
  next
    case False
    with Cons.prems obtain b' where dc: "dot_char c" and l: "lazy_until q cs = Some b'" and b: "b = c # b'"
      by (auto split: if_splits)
    from Cons.IH [OF l] obtain r where "cs = b' @ q # r" "q \<notin> set b'" "list_all dot_char b'" by blast
    with False dc b show ?thesis by auto
  qed
qed

lemma dot_chars_iff: "list_all dot_char nm \<longleftrightarrow> CHR 0x0A \<notin> set nm \<and> CHR 0x0D \<notin> set nm"
  by (induction nm) (auto simp add: dot_char_def)

lemma value_chars_iff: "list_all value_char tok \<longleftrightarrow> CHR '';'' \<notin> set tok \<and> CHR 0x0A \<notin> set tok"
  by (induction tok) (auto simp add: value_char_def)

lemma strip_quotes_eq: "strip_quotes g = without_quotes g"
  by (simp add: strip_quotes_def without_quotes_def quote_char_def)

lemma group1_quoted_string:
  assumes "quoted_string v nm"
  shows "group1 v \<noteq> []" and "strip_quotes (group1 v) = without_quotes nm"
proof -
  from assms obtain q r where v: "v = q # nm @ q # r" and q: "quote_char q"
    and nm: "q \<notin> set nm" "list_all dot_char nm"
    by (auto simp add: quoted_string_def quote_char_def dot_chars_iff)
  then have g: "group1 v = q # nm @ [q]"
    by (simp add: group1_def quoted_alt_def lazy_until_closing)
  then show "group1 v \<noteq> []" by simp
  from g q show "strip_quotes (group1 v) = without_quotes nm"
    by (auto simp add: strip_quotes_def without_quotes_def quote_char_def)
qed

lemma group1_bare_token:
  assumes "\<forall>nm. \<not> quoted_string v nm" and "bare_token v tok"
  shows "group1 v = tok"
proof -
  have "quoted_alt v = None"
  proof (rule ccontr)
    assume "quoted_alt v \<noteq> None"
    then obtain q w b where v: "v = q # w" and q: "quote_char q" and l: "lazy_until q w = Some b"
      by (auto simp add: quoted_alt_def split: list.splits if_splits)
    from lazy_until_SomeD [OF l] obtain r where "w = b @ q # r" "q \<notin> set b" "list_all dot_char b"
      by blast
    with v q have "quoted_string v b"
      by (auto simp add: quoted_string_def quote_char_def dot_chars_iff)
    with assms(1) show False by blast
  qed
  moreover from assms(2) obtain r where v: "v = tok @ r" and tok: "list_all value_char tok"
    and r: "r = [] \<or> \<not> value_char (hd r)"
    by (auto simp add: bare_token_def value_chars_iff value_char_def)
  have "takeWhile value_char (tok @ r) = tok"
    using tok r by (cases r) (auto simp add: takeWhile_append list_all_iff takeWhile_eq_all_conv)
  ultimately show ?thesis using v by (simp add: group1_def)
qed

lemma mentions_attachment_iff: "js_includes ''attachment'' d \<longleftrightarrow> mentions_attachment d"
  by (simp add: js_includes_iff mentions_attachment_def)

lemma mentions_attachment_nonempty: "mentions_attachment d \<Longrightarrow> d \<noteq> []"
  by (auto simp add: mentions_attachment_def)

lemma download_filename_None: "download_filename dflt None = dflt"
  by (simp add: download_filename_def)

lemma download_filename_unparsable:
  assumes "\<not> mentions_attachment d \<or> \<not> (\<exists>pre m v. parameter_at d pre m v)"
  shows "download_filename dflt (Some d) = dflt"
  using assms no_parameter_no_match [of d]
  by (auto simp add: download_filename_def mentions_attachment_iff)

lemma download_filename_quoted_string:
  assumes "mentions_attachment d" and "first_parameter d pre m v" and "quoted_string v nm"
  shows "download_filename dflt (Some d) = without_quotes nm"
  using assms(1) mentions_attachment_nonempty [OF assms(1)]
    first_parameter_match [OF assms(2)] group1_quoted_string [OF assms(3)]
  by (simp add: download_filename_def mentions_attachment_iff)

lemma download_filename_bare_token:
  assumes "mentions_attachment d" and "first_parameter d pre m v"
    and "\<forall>nm. \<not> quoted_string v nm" and "bare_token v tok"
  shows "download_filename dflt (Some d) = (if tok = [] then dflt else without_quotes tok)"
  using assms(1) mentions_attachment_nonempty [OF assms(1)]
    first_parameter_match [OF assms(2)] group1_bare_token [OF assms(3,4)]
  by (simp add: download_filename_def mentions_attachment_iff strip_quotes_eq)

lemma first_parameterI:
  assumes "parameter_at d pre m v" and "\<not> js_includes ''filename'' (pre @ ''filenam'')"
  shows "first_parameter d pre m v"
  unfolding first_parameter_def
proof (intro conjI allI impI)
  show "parameter_at d pre m v" by fact
next
  fix a m' w assume p: "parameter_at d a m' w"
  show "length pre \<le> length a"
  proof (rule ccontr)
    assume "\<not> length pre \<le> length a"
    then have less: "length a < length pre" by simp
    from assms(1) have d: "d = pre @ ''filename'' @ m @ ''='' @ v"
      by (simp add: parameter_at_def)
    from p have d': "d = a @ ''filename'' @ m' @ ''='' @ w" and m': "list_all name_char m'"
      by (simp_all add: parameter_at_def name_chars_iff)
    from d d' have "pre @ ''filename'' @ m @ ''='' @ v = a @ ''filename'' @ m' @ ''='' @ w"
      by simp
    with less obtain b where pre: "pre = a @ b" and b: "b \<noteq> []"
      and eq: "b @ ''filename'' @ m @ ''='' @ v = ''filename'' @ m' @ ''='' @ w"
      by (auto simp add: append_eq_append_conv2)
    have "match_here (b @ ''filename'' @ m @ ''='' @ v) = None"
      by (rule first_filename [OF assms(2) pre b])
    moreover have "match_here (''filename'' @ m' @ ''='' @ w) = Some (group1 w)"
      by (rule match_here_parameter_general [OF m'])
    ultimately show False using eq by simp
  qed
qed

lemma quoted_stringI:
  "q = CHR 0x22 \<or> q = CHR 0x27 \<Longrightarrow> q \<notin> set nm \<Longrightarrow> CHR 0x0A \<notin> set nm \<Longrightarrow> CHR 0x0D \<notin> set nm
     \<Longrightarrow> quoted_string (q # nm @ q # r) nm"
  unfolding quoted_string_def by blast

lemma not_quoted_string:
  "v = [] \<or> (hd v \<noteq> CHR 0x22 \<and> hd v \<noteq> CHR 0x27) \<Longrightarrow> \<not> quoted_string v nm"
  by (auto simp add: quoted_string_def)

lemma bare_tokenI:
  "CHR '';'' \<notin> set tok \<Longrightarrow> CHR 0x0A \<notin> set tok \<Longrightarrow> r = [] \<or> hd r = CHR '';'' \<or> hd r = CHR 0x0A
     \<Longrightarrow> bare_token (tok @ r) tok"
  unfolding bare_token_def by blast

lemma no_equals_no_parameter: "CHR ''='' \<notin> set d \<Longrightarrow> \<not> parameter_at d pre m v"
  by (auto simp add: parameter_at_def)

lemma pdf_response_ok:
  "\<exists>resp. result (pdf_response t disposition) = Inr resp \<and> ok resp \<and> blob_body resp = Inr ()
     \<and> content_disposition resp = disposition"
  by (simp add: pdf_response_def)

text \<open>
  C2 (as stated, refuted). A successful response whose header is
  \<^verbatim>\<open>inline; filename="custom.pdf"\<close> carries a filename parameter, yet the download is
  saved under the default name: the handler looks for a filename only in a header that
  contains the word \<^verbatim>\<open>attachment\<close>.
\<close>

theorem export_filename_inline_counterexample:
  \<open>downloads (pdfReportForm_submit
       (pdf_response 0 (Some ''inline; filename="custom.pdf"'')) example_page) = [''artifacts_report.pdf'']
   \<and> downloads (pdfReportForm_submit
       (pdf_response 0 (Some ''inline; filename="custom.pdf"'')) example_page) \<noteq> [''custom.pdf'']\<close>
proof -
  have \<open>\<not> mentions_attachment ''inline; filename="custom.pdf"''\<close>
    unfolding mentions_attachment_iff [symmetric] by simp
  then have \<open>download_filename ''artifacts_report.pdf'' (Some ''inline; filename="custom.pdf"'')
      = ''artifacts_report.pdf''\<close>
    by (simp add: download_filename_unparsable)
  moreover have "downloads example_page = []"
    by (simp add: downloads_def example_page_def)
  moreover have \<open>downloads (pdfReportForm_submit
       (pdf_response 0 (Some ''inline; filename="custom.pdf"'')) example_page)
     = downloads example_page @ [download_filename ''artifacts_report.pdf''
         (Some ''inline; filename="custom.pdf"'')]\<close>
    using downloads_submit(1) [of "pdf_response 0 d" _ "()" example_page for d]
    by (simp add: pdf_response_def)
  ultimately show ?thesis by simp
qed

text \<open>
  C2 (amended). A successful export whose payload could be read saves exactly one file,
  on either page. Its name is the page's default (\<^verbatim>\<open>artifacts_report.pdf\<close>,
  \<^verbatim>\<open>correlation_report.pdf\<close>) when the header is absent, when it does not contain
  \<^verbatim>\<open>attachment\<close>, when it has no filename parameter, and when the value of its first
  filename parameter is an empty bare token. Otherwise the name is the value of the first
  filename parameter without its quote characters: the quoted string when the value
  starts with one, else the bare token.
\<close>

theorem export_filename:
  assumes "result f = Inr resp" and "ok resp" and "blob_body resp = Inr u"
  shows
   "(content_disposition resp = None \<longrightarrow>
        downloads (pdfReportForm_submit f s) = downloads s @ [''artifacts_report.pdf'']
      \<and> downloads (correlation_pdfReportForm_submit f s) = downloads s @ [''correlation_report.pdf''])
  \<and> (\<forall>d. content_disposition resp = Some d
          \<and> (\<not> mentions_attachment d \<or> \<not> (\<exists>pre m v. parameter_at d pre m v)) \<longrightarrow>
        downloads (pdfReportForm_submit f s) = downloads s @ [''artifacts_report.pdf'']
      \<and> downloads (correlation_pdfReportForm_submit f s) = downloads s @ [''correlation_report.pdf''])
  \<and> (\<forall>d pre m v nm. content_disposition resp = Some d \<and> mentions_attachment d
          \<and> first_parameter d pre m v \<and> quoted_string v nm \<longrightarrow>
        downloads (pdfReportForm_submit f s) = downloads s @ [without_quotes nm]
      \<and> downloads (correlation_pdfReportForm_submit f s) = downloads s @ [without_quotes nm])
  \<and> (\<forall>d pre m v tok. content_disposition resp = Some d \<and> mentions_attachment d
          \<and> first_parameter d pre m v \<and> (\<forall>nm. \<not> quoted_string v nm) \<and> bare_token v tok \<longrightarrow>
        downloads (pdfReportForm_submit f s)
          = downloads s @ [if tok = [] then ''artifacts_report.pdf'' else without_quotes tok]
      \<and> downloads (correlation_pdfReportForm_submit f s)
          = downloads s @ [if tok = [] then ''correlation_report.pdf'' else without_quotes tok])"
proof -
  note saved = downloads_submit [OF assms]
  have absent: "content_disposition resp = None \<longrightarrow>
        downloads (pdfReportForm_submit f s) = downloads s @ [''artifacts_report.pdf'']
      \<and> downloads (correlation_pdfReportForm_submit f s) = downloads s @ [''correlation_report.pdf'']"
    by (simp add: saved download_filename_None)
  have unparsable: "\<forall>d. content_disposition resp = Some d
          \<and> (\<not> mentions_attachment d \<or> \<not> (\<exists>pre m v. parameter_at d pre m v)) \<longrightarrow>
        downloads (pdfReportForm_submit f s) = downloads s @ [''artifacts_report.pdf'']
      \<and> downloads (correlation_pdfReportForm_submit f s) = downloads s @ [''correlation_report.pdf'']"
  proof (intro allI impI, elim conjE)
    fix d assume "content_disposition resp = Some d"
      and "\<not> mentions_attachment d \<or> \<not> (\<exists>pre m v. parameter_at d pre m v)"
    then show "downloads (pdfReportForm_submit f s) = downloads s @ [''artifacts_report.pdf'']
      \<and> downloads (correlation_pdfReportForm_submit f s) = downloads s @ [''correlation_report.pdf'']"
      by (simp add: saved download_filename_unparsable)
  qed
  have quoted: "\<forall>d pre m v nm. content_disposition resp = Some d \<and> mentions_attachment d
          \<and> first_parameter d pre m v \<and> quoted_string v nm \<longrightarrow>
        downloads (pdfReportForm_submit f s) = downloads s @ [without_quotes nm]
      \<and> downloads (correlation_pdfReportForm_submit f s) = downloads s @ [without_quotes nm]"
  proof (intro allI impI, elim conjE)
    fix d pre m v nm assume "content_disposition resp = Some d" "mentions_attachment d"
      "first_parameter d pre m v" "quoted_string v nm"
    then show "downloads (pdfReportForm_submit f s) = downloads s @ [without_quotes nm]
      \<and> downloads (correlation_pdfReportForm_submit f s) = downloads s @ [without_quotes nm]"
      by (simp add: saved download_filename_quoted_string [of d pre m v nm])
  qed
  have bare: "\<forall>d pre m v tok. content_disposition resp = Some d \<and> mentions_attachment d
          \<and> first_parameter d pre m v \<and> (\<forall>nm. \<not> quoted_string v nm) \<and> bare_token v tok \<longrightarrow>
        downloads (pdfReportForm_submit f s)
          = downloads s @ [if tok = [] then ''artifacts_report.pdf'' else without_quotes tok]
      \<and> downloads (correlation_pdfReportForm_submit f s)
          = downloads s @ [if tok = [] then ''correlation_report.pdf'' else without_quotes tok]"
  proof (intro allI impI, elim conjE)
    fix d pre m v tok assume "content_disposition resp = Some d" "mentions_attachment d"
      "first_parameter d pre m v" "\<forall>nm. \<not> quoted_string v nm" "bare_token v tok"
    then show "downloads (pdfReportForm_submit f s)
          = downloads s @ [if tok = [] then ''artifacts_report.pdf'' else without_quotes tok]
      \<and> downloads (correlation_pdfReportForm_submit f s)
          = downloads s @ [if tok = [] then ''correlation_report.pdf'' else without_quotes tok]"
      by (simp add: saved download_filename_bare_token [of d pre m v tok])
  qed
  from absent unparsable quoted bare show ?thesis by (intro conjI)
qed

theorem export_filename_witness:
  \<open>downloads (pdfReportForm_submit
       (pdf_response 0 (Some ''attachment; filename="custom.pdf"'')) example_page) = [''custom.pdf'']
   \<and> downloads (correlation_pdfReportForm_submit
       (pdf_response 0 (Some ''attachment; filename="custom.pdf"'')) example_page) = [''custom.pdf'']
   \<and> downloads (pdfReportForm_submit (pdf_response 0 None) example_page) = [''artifacts_report.pdf'']
   \<and> downloads (correlation_pdfReportForm_submit (pdf_response 0 None) example_page)
       = [''correlation_report.pdf'']
   \<and> downloads (correlation_pdfReportForm_submit
       (pdf_response 0 (Some ''attachment; filename*=report.pdf; size=3'')) example_page) = [''report.pdf'']
   \<and> downloads (pdfReportForm_submit
       (pdf_response 0 (Some ''attachment; filename='')) example_page) = [''artifacts_report.pdf'']
   \<and> downloads (correlation_pdfReportForm_submit
       (pdf_response 0 (Some ''attachment; filename'')) example_page) = [''correlation_report.pdf'']\<close>
proof -
  have none: "downloads example_page = []"
    by (simp add: downloads_def example_page_def)
  have first: "\<not> js_includes ''filename'' (''attachment; '' @ ''filenam'')"
    by simp
  \<comment> \<open>a quoted value\<close>
  define d1 where \<open>d1 = ''attachment; filename="custom.pdf"''\<close>
  obtain r1 where r1: "result (pdf_response 0 (Some d1)) = Inr r1" "ok r1" "blob_body r1 = Inr ()"
      "content_disposition r1 = Some d1"
    using pdf_response_ok [of 0 "Some d1"] by blast
  have a1: "mentions_attachment d1"
    unfolding mentions_attachment_iff [symmetric] d1_def by simp
  have p1: \<open>first_parameter d1 ''attachment; '' [] (CHR 0x22 # ''custom.pdf'' @ CHR 0x22 # [])\<close>
    by (rule first_parameterI [OF _ first]) (simp add: parameter_at_def d1_def)
  have q1: \<open>quoted_string (CHR 0x22 # ''custom.pdf'' @ CHR 0x22 # []) ''custom.pdf''\<close>
    by (rule quoted_stringI) simp_all
  have c1: "downloads (pdfReportForm_submit (pdf_response 0 (Some d1)) example_page)
        = downloads example_page @ [without_quotes ''custom.pdf'']
      \<and> downloads (correlation_pdfReportForm_submit (pdf_response 0 (Some d1)) example_page)
        = downloads example_page @ [without_quotes ''custom.pdf'']"
    by (rule export_filename [OF r1(1-3), of example_page, THEN conjunct2, THEN conjunct2,
          THEN conjunct1, rule_format, of d1 "''attachment; ''" "[]"
          "CHR 0x22 # ''custom.pdf'' @ CHR 0x22 # []" "''custom.pdf''"])
       (intro conjI r1(4) a1 p1 q1)
  \<comment> \<open>no header\<close>
  obtain r2 where r2: "result (pdf_response 0 None) = Inr r2" "ok r2" "blob_body r2 = Inr ()"
      "content_disposition r2 = None"
    using pdf_response_ok [of 0 None] by blast
  have c2: "downloads (pdfReportForm_submit (pdf_response 0 None) example_page)
        = downloads example_page @ [''artifacts_report.pdf'']
      \<and> downloads (correlation_pdfReportForm_submit (pdf_response 0 None) example_page)
        = downloads example_page @ [''correlation_report.pdf'']"
    by (rule export_filename [OF r2(1-3), of example_page, THEN conjunct1, rule_format]) (rule r2(4))
  \<comment> \<open>a bare token after \<open>filename*=\<close>\<close>
  define d3 where "d3 = ''attachment; filename*=report.pdf; size=3''"
  obtain r3 where r3: "result (pdf_response 0 (Some d3)) = Inr r3" "ok r3" "blob_body r3 = Inr ()"
      "content_disposition r3 = Some d3"
    using pdf_response_ok [of 0 "Some d3"] by blast
  have a3: "mentions_attachment d3"
    unfolding mentions_attachment_iff [symmetric] d3_def by simp
  have p3: "first_parameter d3 ''attachment; '' ''*'' (''report.pdf'' @ ''; size=3'')"
    by (rule first_parameterI [OF _ first]) (simp add: parameter_at_def d3_def)
  have n3: "\<forall>nm. \<not> quoted_string (''report.pdf'' @ ''; size=3'') nm"
    by (intro allI not_quoted_string) simp
  have b3: "bare_token (''report.pdf'' @ ''; size=3'') ''report.pdf''"
    by (rule bare_tokenI) simp_all
  have c3: "downloads (pdfReportForm_submit (pdf_response 0 (Some d3)) example_page)
        = downloads example_page @ [if ''report.pdf'' = [] then ''artifacts_report.pdf''
             else without_quotes ''report.pdf'']
      \<and> downloads (correlation_pdfReportForm_submit (pdf_response 0 (Some d3)) example_page)
        = downloads example_page @ [if ''report.pdf'' = [] then ''correlation_report.pdf''
             else without_quotes ''report.pdf'']"
    by (rule export_filename [OF r3(1-3), of example_page, THEN conjunct2, THEN conjunct2,
          THEN conjunct2, rule_format, of d3 "''attachment; ''" "''*''"
          "''report.pdf'' @ ''; size=3''" "''report.pdf''"])
       (intro conjI r3(4) a3 p3 n3 b3)
  \<comment> \<open>an empty value\<close>
  define d4 where "d4 = ''attachment; filename=''"
  obtain r4 where r4: "result (pdf_response 0 (Some d4)) = Inr r4" "ok r4" "blob_body r4 = Inr ()"
      "content_disposition r4 = Some d4"
    using pdf_response_ok [of 0 "Some d4"] by blast
  have a4: "mentions_attachment d4"
    unfolding mentions_attachment_iff [symmetric] d4_def by simp
  have p4: "first_parameter d4 ''attachment; '' [] ([] @ [])"
    by (rule first_parameterI [OF _ first]) (simp add: parameter_at_def d4_def)
  have n4: "\<forall>nm. \<not> quoted_string ([] @ []) nm"
    by (intro allI not_quoted_string) simp
  have b4: "bare_token ([] @ []) []"
    by (rule bare_tokenI) simp_all
  have c4: "downloads (pdfReportForm_submit (pdf_response 0 (Some d4)) example_page)
        = downloads example_page @ [if ([]::string) = [] then ''artifacts_report.pdf''
             else without_quotes []]
      \<and> downloads (correlation_pdfReportForm_submit (pdf_response 0 (Some d4)) example_page)
        = downloads example_page @ [if ([]::string) = [] then ''correlation_report.pdf''
             else without_quotes []]"
    by (rule export_filename [OF r4(1-3), of example_page, THEN conjunct2, THEN conjunct2,
          THEN conjunct2, rule_format, of d4 "''attachment; ''" "[]" "[] @ []" "[]"])
       (intro conjI r4(4) a4 p4 n4 b4)
  \<comment> \<open>the word without a value\<close>
  define d5 where "d5 = ''attachment; filename''"
  obtain r5 where r5: "result (pdf_response 0 (Some d5)) = Inr r5" "ok r5" "blob_body r5 = Inr ()"
      "content_disposition r5 = Some d5"
    using pdf_response_ok [of 0 "Some d5"] by blast
  have n5: "\<not> mentions_attachment d5 \<or> \<not> (\<exists>pre m v. parameter_at d5 pre m v)"
    using no_equals_no_parameter [of d5] by (simp add: d5_def)
  have c5: "downloads (pdfReportForm_submit (pdf_response 0 (Some d5)) example_page)
        = downloads example_page @ [''artifacts_report.pdf'']
      \<and> downloads (correlation_pdfReportForm_submit (pdf_response 0 (Some d5)) example_page)
        = downloads example_page @ [''correlation_report.pdf'']"
    by (rule export_filename [OF r5(1-3), of example_page, THEN conjunct2, THEN conjunct1,
          rule_format, of d5]) (intro conjI r5(4) n5)
  from c1 c2 c3 c4 c5 show ?thesis
    unfolding none d1_def d3_def d4_def d5_def by (simp add: without_quotes_def)
qed

end
